theory Spec2Isabelle
  imports Complex_Main
begin

section \<open>Data model\<close>

text \<open>
  The pipeline of \<^verbatim>\<open>hgdp_tgp_pca_intersection.py\<close> drives the Hail engine over
  matrix tables kept in blob storage. The embedding keeps the engine's objects as plain
  values: a matrix table is its column list (samples), its row list (variants) and, in
  every row, the genotype entries in column order. Storage is a map from paths to files,
  threaded through every stage. Float columns are real numbers.
\<close>

datatype reference_genome = GRCh37 | GRCh38

record locus =
  contig :: string
  position :: int
  reference_genome :: reference_genome

text \<open>A diploid call: the two allele indices, 0 for the reference allele.\<close>

datatype call = Call nat nat

text \<open>
  A column carries the sample key \<^verbatim>\<open>s\<close> and the field
  \<^verbatim>\<open>sample_filters.qc_metrics_filters\<close>, a set of strings held as the list of its
  elements; \<open>None\<close> is Hail's missing value.
\<close>

record col =
  col_s :: string
  qc_metrics_filters :: "string list option"

record row =
  locus :: locus
  alleles :: "string list"
  filters :: "string list option"
  GT :: "call option list"

text \<open>
  \<open>sample_filters\<close> holds the field names of the column struct
  \<^verbatim>\<open>mt['sample_filters']\<close>: the schema that \<^verbatim>\<open>set(mt['sample_filters'])\<close> iterates.
\<close>

record matrix_table =
  sample_filters :: "string list"
  cols :: "col list"
  rows :: "row list"

text \<open>
  One line of the target panel \<^verbatim>\<open>snp_list\<close>: the contig as \<^verbatim>\<open>hl.str\<close> prints it
  and the position as \<^verbatim>\<open>import_table\<close> imputes it, an integer of 32 or 64 bits.
\<close>

record snp =
  chr :: string
  pos :: int
  ref :: string
  alt :: string

record scores_row =
  scores_s :: string
  scores :: "real list"

record loadings_row =
  loadings_locus :: locus
  loadings_alleles :: "string list"
  loadings :: "real list"
  pca_af :: "real option"

datatype cell = Str string | Float real | FloatArray "real list" | StrArray "string list"
  | LocusCell locus | Missing

datatype stored_file =
    MatrixTableFile matrix_table
  | ScoresTableFile "scores_row list"
  | LoadingsTableFile "loadings_row list"
  | TextFile "string list" "cell list list"

datatype error =
    FileExists string
  | ReadError string
  | NoSuchField string
  | IndexOutOfBounds
  | EngineError string
  | InvalidLocus string int
  | TypeError string

type_synonym storage = "string \<Rightarrow> stored_file option"

type_synonym row_key = "locus \<times> string list"

definition row_key :: "row \<Rightarrow> row_key" where
  "row_key r = (locus r, alleles r)"

section \<open>The engine's storage and filter operations\<close>

definition read_matrix_table :: "storage \<Rightarrow> string \<Rightarrow> error + matrix_table" where
  "read_matrix_table st p =
     (case st p of Some (MatrixTableFile m) \<Rightarrow> Inr m | _ \<Rightarrow> Inl (ReadError p))"

text \<open>\<^verbatim>\<open>write(path, overwrite)\<close> refuses an existing path unless \<open>overwrite\<close> is set.\<close>

definition write_file :: "storage \<Rightarrow> string \<Rightarrow> stored_file \<Rightarrow> bool \<Rightarrow> error + storage" where
  "write_file st p f overwrite =
     (if st p \<noteq> None \<and> \<not> overwrite then Inl (FileExists p) else Inr (st(p \<mapsto> f)))"

text \<open>
  A table is an expression that the engine evaluates when it writes it; an expression
  that fails makes the write fail. \<open>write_matrix_table\<close> is \<^verbatim>\<open>write\<close> for a matrix
  still to be evaluated: the path is examined first.
\<close>

definition write_matrix_table ::
  "storage \<Rightarrow> string \<Rightarrow> error + matrix_table \<Rightarrow> bool \<Rightarrow> error + storage" where
  "write_matrix_table st p mt overwrite =
     (if st p \<noteq> None \<and> \<not> overwrite then Inl (FileExists p)
      else (case mt of Inl e \<Rightarrow> Inl e | Inr m \<Rightarrow> Inr (st(p \<mapsto> MatrixTableFile m))))"

text \<open>
  \<^verbatim>\<open>checkpoint(output, overwrite, _read_if_exists)\<close> writes unless
  \<open>_read_if_exists\<close> is set and the path exists, then reads the path back. When it
  does not write, the matrix is never evaluated.
\<close>

definition checkpoint ::
  "storage \<Rightarrow> error + matrix_table \<Rightarrow> string \<Rightarrow> bool \<Rightarrow> bool \<Rightarrow> error + storage \<times> matrix_table" where
  "checkpoint st mt output overwrite read_if_exists =
     (if \<not> read_if_exists \<or> st output = None then
        (case write_matrix_table st output mt overwrite of
           Inl e \<Rightarrow> Inl e
         | Inr st' \<Rightarrow>
             (case read_matrix_table st' output of
                Inl e \<Rightarrow> Inl e
              | Inr m \<Rightarrow> Inr (st', m)))
      else
        (case read_matrix_table st output of
           Inl e \<Rightarrow> Inl e
         | Inr m \<Rightarrow> Inr (st, m)))"

definition filter_rows :: "(row \<Rightarrow> bool) \<Rightarrow> matrix_table \<Rightarrow> matrix_table" where
  "filter_rows P mt = mt\<lparr>rows := filter P (rows mt)\<rparr>"

text \<open>Dropping a column drops its entry from every row.\<close>

definition filter_cols :: "(col \<Rightarrow> bool) \<Rightarrow> matrix_table \<Rightarrow> matrix_table" where
  "filter_cols P mt =
     mt\<lparr>cols := filter P (cols mt),
        rows := map (\<lambda>r. r\<lparr>GT := map snd (filter (\<lambda>cg. P (fst cg)) (zip (cols mt) (GT r)))\<rparr>)
                  (rows mt)\<rparr>"

text \<open>\<^verbatim>\<open>repartition(n)\<close> changes the partitioning only, not the table.\<close>

definition repartition :: "nat \<Rightarrow> matrix_table \<Rightarrow> matrix_table" where
  "repartition n mt = mt"

section \<open>Variant intersection: \<^verbatim>\<open>intersect_target_ref\<close>\<close>

text \<open>\<^verbatim>\<open>str.lower()\<close> on an ASCII label.\<close>

definition lower_char :: "char \<Rightarrow> char" where
  "lower_char c =
     (let n = (of_char c :: nat) in if 65 \<le> n \<and> n \<le> 90 then char_of (n + 32) else c)"

definition lower :: "string \<Rightarrow> string" where
  "lower x = map lower_char x"

text \<open>\<^verbatim>\<open>hl.int\<close>: the conversion to a 32-bit integer, which wraps a wider value.\<close>

definition hl_int :: "int \<Rightarrow> int" where
  "hl_int p = (p + 2147483648) mod 4294967296 - 2147483648"

text \<open>
  \<^verbatim>\<open>hl.locus(contig, position, reference_genome)\<close> fails on a contig that the
  reference genome does not have, and on a position outside the contig. The contig
  lengths of the two reference genomes are data of the engine, taken as the parameter
  \<open>lengths\<close>.
\<close>

type_synonym contig_lengths = "reference_genome \<Rightarrow> string \<Rightarrow> int option"

definition hl_locus :: "contig_lengths \<Rightarrow> string \<Rightarrow> int \<Rightarrow> reference_genome \<Rightarrow> error + locus" where
  "hl_locus lengths c p rg =
     (case lengths rg c of
        None \<Rightarrow> Inl (InvalidLocus c p)
      | Some n \<Rightarrow>
          if 1 \<le> p \<and> p \<le> n then Inr \<lparr>contig = c, position = p, reference_genome = rg\<rparr>
          else Inl (InvalidLocus c p))"

text \<open>
  \<^verbatim>\<open>snp_list.key_by(locus=hl.locus(hl.str(chr), hl.int(pos), reference_genome=rg),
  alleles=[ref, alt])\<close>: the key of one panel line, and the keys of the panel; one line
  that is no locus of the reference genome fails the whole table.
\<close>

definition snp_key :: "contig_lengths \<Rightarrow> reference_genome \<Rightarrow> snp \<Rightarrow> error + row_key" where
  "snp_key lengths rg e =
     (case hl_locus lengths (chr e) (hl_int (pos e)) rg of
        Inl err \<Rightarrow> Inl err
      | Inr l \<Rightarrow> Inr (l, [ref e, alt e]))"

text \<open>The key of a panel line that is a locus of the reference genome.\<close>

definition panel_key :: "reference_genome \<Rightarrow> snp \<Rightarrow> row_key" where
  "panel_key rg e =
     (\<lparr>contig = chr e, position = hl_int (pos e), reference_genome = rg\<rparr>, [ref e, alt e])"

fun key_by :: "contig_lengths \<Rightarrow> reference_genome \<Rightarrow> snp list \<Rightarrow> error + row_key list" where
  "key_by lengths rg [] = Inr []"
| "key_by lengths rg (e # es) =
     (case snp_key lengths rg e of
        Inl err \<Rightarrow> Inl err
      | Inr k \<Rightarrow>
          (case key_by lengths rg es of
             Inl err \<Rightarrow> Inl err
           | Inr ks \<Rightarrow> Inr (k # ks)))"

text \<open>
  \<^verbatim>\<open>hl.liftover(locus, 'GRCh38')\<close>: the chain file is an opaque coordinate map,
  taken as the parameter \<open>chain\<close>; an unmapped locus is missing.
\<close>

definition liftover ::
  "(string \<times> int \<Rightarrow> (string \<times> int) option) \<Rightarrow> locus \<Rightarrow> reference_genome \<Rightarrow> locus option" where
  "liftover chain l dest =
     (case chain (contig l, position l) of
        None \<Rightarrow> None
      | Some (c, p) \<Rightarrow> Some \<lparr>contig = c, position = p, reference_genome = dest\<rparr>)"

text \<open>
  Lines 47 to 49, on the keys of the panel: annotate \<open>new_locus\<close>, keep the lines
  where it is defined, and key them by the new locus with the alleles they had.
\<close>

definition snp_liftover ::
  "(string \<times> int \<Rightarrow> (string \<times> int) option) \<Rightarrow> row_key list \<Rightarrow> row_key list" where
  "snp_liftover chain keys =
     map (\<lambda>(k, new_locus). (the new_locus, snd k))
       (filter (\<lambda>(k, new_locus). new_locus \<noteq> None)
          (map (\<lambda>k. (k, liftover chain (fst k) GRCh38)) keys))"

text \<open>
  Lines 36 to 50, the matrix that the stage computes, or the error of its evaluation: the
  two branches of the \<^verbatim>\<open>if\<close>/\<^verbatim>\<open>elif\<close>; with any other label neither branch runs
  and the matrix is as read.
\<close>

definition intersect_rows ::
  "contig_lengths \<Rightarrow> (string \<times> int \<Rightarrow> (string \<times> int) option) \<Rightarrow> snp list \<Rightarrow> string
     \<Rightarrow> matrix_table \<Rightarrow> error + matrix_table" where
  "intersect_rows lengths chain snp_list grch37_or_grch38 mt =
     (if lower grch37_or_grch38 = ''grch38'' then
        (case key_by lengths GRCh38 snp_list of
           Inl err \<Rightarrow> Inl err
         | Inr keys \<Rightarrow> Inr (filter_rows (\<lambda>r. row_key r \<in> set keys) mt))
      else if lower grch37_or_grch38 = ''grch37'' then
        (case key_by lengths GRCh37 snp_list of
           Inl err \<Rightarrow> Inl err
         | Inr keys \<Rightarrow> Inr (filter_rows (\<lambda>r. row_key r \<in> set (snp_liftover chain keys)) mt))
      else Inr mt)"

definition intersect_target_ref ::
  "contig_lengths \<Rightarrow> (string \<times> int \<Rightarrow> (string \<times> int) option) \<Rightarrow> string \<Rightarrow> snp list \<Rightarrow> string
     \<Rightarrow> string \<Rightarrow> bool \<Rightarrow> storage \<Rightarrow> error + storage" where
  "intersect_target_ref lengths chain ref_mt_filt snp_list grch37_or_grch38 intersect_out
       overwrite st =
     (case read_matrix_table st ref_mt_filt of
        Inl e \<Rightarrow> Inl e
      | Inr mt \<Rightarrow>
          (case checkpoint st
                  (map_sum id (repartition 5000)
                    (intersect_rows lengths chain snp_list grch37_or_grch38 mt))
                  intersect_out overwrite (\<not> overwrite) of
             Inl e \<Rightarrow> Inl e
           | Inr (st', m) \<Rightarrow> Inr st'))"

section \<open>Sample quality control: \<^verbatim>\<open>ref_filtering\<close>\<close>

definition startswith :: "string \<Rightarrow> string \<Rightarrow> bool" where
  "startswith x p = (take (length p) x = p)"

text \<open>
  \<^verbatim>\<open>re.sub('fail_', '', x)\<close>: every occurrence of the literal, scanned left to right
  without overlap, is removed.
\<close>

function re_sub_fail :: "string \<Rightarrow> string" where
  "re_sub_fail [] = []"
| "re_sub_fail (c # cs) =
     (if startswith (c # cs) ''fail_'' then re_sub_fail (drop 5 (c # cs))
      else c # re_sub_fail cs)"
  by pat_completeness auto
termination
  by (relation "measure length") auto

text \<open>
  The Python set \<^verbatim>\<open>bad_sample_filters\<close>, as the list of its elements. When it is
  empty, the engine cannot give it a type and line 19 raises.
\<close>

definition bad_sample_filters :: "matrix_table \<Rightarrow> string list" where
  "bad_sample_filters mt =
     map re_sub_fail (filter (\<lambda>x. startswith x ''fail_'') (sample_filters mt))"

text \<open>
  \<^verbatim>\<open>qc_metrics_filters.difference(bad_sample_filters).length() == 0\<close>; a missing set
  makes the predicate missing, and \<^verbatim>\<open>filter_cols\<close> drops the column.
\<close>

definition qc_pass :: "string list \<Rightarrow> col \<Rightarrow> bool" where
  "qc_pass bad c =
     (case qc_metrics_filters c of
        None \<Rightarrow> False
      | Some fs \<Rightarrow> length (remdups (filter (\<lambda>x. x \<notin> set bad) fs)) = 0)"

text \<open>\<^verbatim>\<open>mt_filt.filters.length() == 0\<close>, the variants that pass gnomAD's QC.\<close>

definition filters_empty :: "row \<Rightarrow> bool" where
  "filters_empty r = (case filters r of None \<Rightarrow> False | Some fs \<Rightarrow> length (remdups fs) = 0)"

definition import_table :: "storage \<Rightarrow> string \<Rightarrow> error + string list \<times> cell list list" where
  "import_table st p =
     (case st p of Some (TextFile h b) \<Rightarrow> Inr (h, b) | _ \<Rightarrow> Inl (ReadError p))"

text \<open>
  \<^verbatim>\<open>key_by('s')\<close> on an imported table: the key of every line, missing where the
  line has no such cell.
\<close>

definition key_by_s :: "string list \<times> cell list list \<Rightarrow> error + cell option list" where
  "key_by_s t =
     (if ''s'' \<in> set (fst t) then Inr (map (\<lambda>line. map_of (zip (fst t) line) ''s'') (snd t))
      else Inl (NoSuchField ''s''))"

text \<open>Lines 17 to 19: the columns that fail no check outside \<^verbatim>\<open>bad_sample_filters\<close>.\<close>

definition qc_pass_samples :: "matrix_table \<Rightarrow> matrix_table" where
  "qc_pass_samples mt = filter_cols (qc_pass (bad_sample_filters mt)) mt"

text \<open>
  Lines 24 to 29: the variants that pass, the samples that are columns of the unrelated
  matrix, and of those the ones with no line in the outlier table.
\<close>

definition unrelated_non_outliers ::
  "matrix_table \<Rightarrow> cell option list \<Rightarrow> matrix_table \<Rightarrow> matrix_table" where
  "unrelated_non_outliers mt_unrel pca_outliers mt_filt =
     filter_cols (\<lambda>c. Some (Str (col_s c)) \<notin> set pca_outliers)
       (filter_cols (\<lambda>c. col_s c \<in> set (map col_s (cols mt_unrel)))
         (filter_rows filters_empty mt_filt))"

definition ref_filtering ::
  "string \<Rightarrow> string \<Rightarrow> string \<Rightarrow> string \<Rightarrow> string \<Rightarrow> bool \<Rightarrow> storage \<Rightarrow> error + storage" where
  "ref_filtering ref_mt pass_mt unrel outliers pass_unrel_mt overwrite st =
     (case read_matrix_table st ref_mt of
        Inl e \<Rightarrow> Inl e
      | Inr mt \<Rightarrow>
          if ''qc_metrics_filters'' \<notin> set (sample_filters mt)
          then Inl (NoSuchField ''qc_metrics_filters'')
          else if bad_sample_filters mt = []
          then Inl (TypeError ''cannot impute the type of an empty set'')
          else
            (case checkpoint st (Inr (qc_pass_samples mt)) pass_mt False True of
               Inl e \<Rightarrow> Inl e
             | Inr (st1, mt_filt) \<Rightarrow>
                 (case read_matrix_table st1 unrel of
                    Inl e \<Rightarrow> Inl e
                  | Inr mt_unrel \<Rightarrow>
                      (case import_table st1 outliers of
                         Inl e \<Rightarrow> Inl e
                       | Inr t \<Rightarrow>
                           (case key_by_s t of
                              Inl e \<Rightarrow> Inl e
                            | Inr pca_outliers \<Rightarrow>
                                write_file st1 pass_unrel_mt
                                  (MatrixTableFile
                                    (unrelated_non_outliers mt_unrel pca_outliers mt_filt))
                                  overwrite)))))"

section \<open>Frequency filter and LD pruning: \<^verbatim>\<open>ld_prune_filter\<close>\<close>

definition n_alt_alleles :: "call \<Rightarrow> nat" where
  "n_alt_alleles g = (case g of Call a b \<Rightarrow> (if a \<noteq> 0 then 1 else 0) + (if b \<noteq> 0 then 1 else 0))"

text \<open>
  \<^verbatim>\<open>hl.variant_qc\<close>: \<open>AC\<close> counts, per allele index, the called alleles with that
  index; \<open>AN\<close> is the number of called alleles; \<open>AF\<close> is their quotient, one entry per
  allele of the row, and not a number (here \<open>None\<close>) when nothing is called.
\<close>

definition variant_qc_AC :: "nat \<Rightarrow> call option list \<Rightarrow> nat" where
  "variant_qc_AC i gs =
     sum_list (map (\<lambda>g. case g of
                          None \<Rightarrow> 0
                        | Some (Call a b) \<Rightarrow> (if a = i then 1 else 0) + (if b = i then 1 else 0)) gs)"

definition n_called :: "call option list \<Rightarrow> nat" where
  "n_called gs = length (filter (\<lambda>g. g \<noteq> None) gs)"

text \<open>The alternate alleles of a row, summed over its defined calls.\<close>

definition sum_n_alt :: "call option list \<Rightarrow> nat" where
  "sum_n_alt gs = sum_list (map (\<lambda>g. case g of None \<Rightarrow> 0 | Some c \<Rightarrow> n_alt_alleles c) gs)"

definition variant_qc_AN :: "call option list \<Rightarrow> nat" where
  "variant_qc_AN gs = 2 * n_called gs"

definition variant_qc_AF :: "row \<Rightarrow> real option list" where
  "variant_qc_AF r =
     map (\<lambda>i. if variant_qc_AN (GT r) = 0 then None
              else Some (real (variant_qc_AC i (GT r)) / real (variant_qc_AN (GT r))))
       [0..<length (alleles r)]"

text \<open>
  Line 60: \<^verbatim>\<open>(AF[0] > 0.001) & (AF[0] < 0.999)\<close>. Indexing an empty array is an
  error of the engine; a comparison with a missing number drops the row.
\<close>

definition AF0_in_range :: "row \<Rightarrow> bool" where
  "AF0_in_range r =
     (case variant_qc_AF r ! 0 of None \<Rightarrow> False | Some f \<Rightarrow> 1 / 1000 < f \<and> f < 999 / 1000)"

definition af_filter :: "matrix_table \<Rightarrow> error + matrix_table" where
  "af_filter mt =
     (if \<exists>r \<in> set (rows mt). variant_qc_AF r = [] then Inl IndexOutOfBounds
      else Inr (filter_rows AF0_in_range mt))"

text \<open>
  \<^verbatim>\<open>hl.ld_prune\<close> belongs to the engine; the stage takes it as the parameter
  \<open>ld_prune\<close>, called with \<open>r2 = 0.8\<close> and \<open>bp_window_size = 500000\<close>, which returns
  the keys of the variants to keep. The two \<^verbatim>\<open>print\<close> calls write to the console only.
\<close>

definition ld_prune_filter ::
  "(matrix_table \<Rightarrow> real \<Rightarrow> int \<Rightarrow> error + row_key list) \<Rightarrow> string \<Rightarrow> string \<Rightarrow> bool
     \<Rightarrow> storage \<Rightarrow> error + storage" where
  "ld_prune_filter ld_prune intersect_out prune_out overwrite st =
     (case read_matrix_table st intersect_out of
        Inl e \<Rightarrow> Inl e
      | Inr mt \<Rightarrow>
          (case af_filter mt of
             Inl e \<Rightarrow> Inl e
           | Inr mt_filt \<Rightarrow>
               (case ld_prune mt_filt (8 / 10) 500000 of
                  Inl e \<Rightarrow> Inl e
                | Inr mt_intersect_prune \<Rightarrow>
                    write_file st prune_out
                      (MatrixTableFile
                        (filter_rows (\<lambda>r. row_key r \<in> set mt_intersect_prune) mt_filt))
                      overwrite)))"

text \<open>
  Modelled from the spec: the body of \<^verbatim>\<open>hl.ld_prune\<close>, which the repository calls
  and does not contain. Section 4.4 of the specification: two variants on the same
  chromosome and within the window of each other conflict when their r2 reaches the
  threshold. The statistic r2 of two rows is the parameter \<open>r2\<close>.
\<close>

definition in_window :: "int \<Rightarrow> row \<Rightarrow> row \<Rightarrow> bool" where
  "in_window w a b =
     (contig (locus a) = contig (locus b) \<and> \<bar>position (locus a) - position (locus b)\<bar> \<le> w)"

definition ld_conflict :: "(row \<Rightarrow> row \<Rightarrow> real) \<Rightarrow> real \<Rightarrow> int \<Rightarrow> row \<Rightarrow> row \<Rightarrow> bool" where
  "ld_conflict r2 threshold w a b = (in_window w a b \<and> threshold \<le> r2 a b)"

text \<open>
  Modelled from the spec: the greedy selection of section 4.4. The earliest remaining
  variant is retained and the variants that conflict with it are removed, until none
  remains.
\<close>

fun greedy_prune :: "(row \<Rightarrow> row \<Rightarrow> bool) \<Rightarrow> row list \<Rightarrow> row list" where
  "greedy_prune cf [] = []"
| "greedy_prune cf (v # vs) = v # greedy_prune cf (filter (\<lambda>u. \<not> cf v u) vs)"

text \<open>
  Modelled from the spec: \<^verbatim>\<open>hl.ld_prune\<close> as the stage calls it. The variants are
  scanned in position order, and the keys of the retained ones are returned.
\<close>

definition ld_prune_spec ::
  "(row \<Rightarrow> row \<Rightarrow> real) \<Rightarrow> matrix_table \<Rightarrow> real \<Rightarrow> int \<Rightarrow> error + row_key list" where
  "ld_prune_spec r2 mt threshold w =
     Inr (map row_key
            (greedy_prune (ld_conflict r2 threshold w)
               (sort_key (\<lambda>r. position (locus r)) (rows mt))))"

section \<open>Principal components and export: \<^verbatim>\<open>run_pca\<close>\<close>

text \<open>Decimal digits of a number, as \<^verbatim>\<open>f'PC{i}'\<close> and the engine's \<^verbatim>\<open>str\<close> print it.\<close>

fun str_nat :: "nat \<Rightarrow> string" where
  "str_nat n =
     (if n < 10 then [char_of (48 + n)] else str_nat (n div 10) @ [char_of (48 + n mod 10)])"

declare str_nat.simps [simp del]

definition str_int :: "int \<Rightarrow> string" where
  "str_int i = (if i < 0 then CHR ''-'' # str_nat (nat (- i)) else str_nat (nat i))"

text \<open>The names \<^verbatim>\<open>f'PC{i}' for i in range(1, 21)\<close>.\<close>

definition PC_names :: "string list" where
  "PC_names = map (\<lambda>i. ''PC'' @ str_nat i) [1..<21]"

text \<open>The values \<^verbatim>\<open>v[i - 1] for i in range(1, 21)\<close> of an array \<open>v\<close>.\<close>

definition PC_cells :: "real list \<Rightarrow> cell list" where
  "PC_cells v = map (\<lambda>i. Float (v ! (i - 1))) [1..<21]"

text \<open>
  \<^verbatim>\<open>hl.agg.mean(mt.GT.n_alt_alleles()) / 2\<close>: the mean runs over the defined calls of
  the row and is not a number (here \<open>None\<close>) when there is none.
\<close>

definition agg_mean_n_alt_alleles :: "call option list \<Rightarrow> real option" where
  "agg_mean_n_alt_alleles gs =
     (if n_called gs = 0 then None
      else Some (real (sum_n_alt gs) / real (n_called gs)))"

definition row_pca_af :: "row \<Rightarrow> real option" where
  "row_pca_af r = map_option (\<lambda>m. m / 2) (agg_mean_n_alt_alleles (GT r))"

text \<open>\<^verbatim>\<open>pca_mt.rows()[pca_loadings.key].pca_af\<close>: missing when no row has the key.\<close>

definition lookup_pca_af :: "matrix_table \<Rightarrow> row_key \<Rightarrow> real option" where
  "lookup_pca_af mt k =
     (case find (\<lambda>r. row_key r = k) (rows mt) of None \<Rightarrow> None | Some r \<Rightarrow> row_pca_af r)"

definition annotate_pca_af :: "matrix_table \<Rightarrow> (row_key \<times> real list) list \<Rightarrow> loadings_row list" where
  "annotate_pca_af mt ls =
     map (\<lambda>kl. \<lparr>loadings_locus = fst (fst kl), loadings_alleles = snd (fst kl),
                 loadings = snd kl, pca_af = lookup_pca_af mt (fst kl)\<rparr>) ls"

definition read_scores :: "storage \<Rightarrow> string \<Rightarrow> error + scores_row list" where
  "read_scores st p =
     (case st p of Some (ScoresTableFile t) \<Rightarrow> Inr t | _ \<Rightarrow> Inl (ReadError p))"

definition read_loadings :: "storage \<Rightarrow> string \<Rightarrow> error + loadings_row list" where
  "read_loadings st p =
     (case st p of Some (LoadingsTableFile t) \<Rightarrow> Inr t | _ \<Rightarrow> Inl (ReadError p))"

text \<open>\<^verbatim>\<open>export\<close> replaces whatever the path holds.\<close>

definition export_table :: "storage \<Rightarrow> string \<Rightarrow> string list \<Rightarrow> cell list list \<Rightarrow> storage" where
  "export_table st p header body = st(p \<mapsto> TextFile header body)"

text \<open>
  Line 84: \<^verbatim>\<open>transmute\<close> replaces the array \<open>scores\<close> by its first twenty entries,
  one column each; an index past the end of an array is an error of the engine.
\<close>

definition transmute_scores :: "scores_row list \<Rightarrow> error + cell list list" where
  "transmute_scores t =
     (if \<exists>r \<in> set t. length (scores r) < 20 then Inl IndexOutOfBounds
      else Inr (map (\<lambda>r. Str (scores_s r) # PC_cells (scores r)) t))"

definition loadings_cells :: "loadings_row \<Rightarrow> cell list" where
  "loadings_cells r =
     [LocusCell (loadings_locus r), StrArray (loadings_alleles r), FloatArray (loadings r),
      (case pca_af r of None \<Rightarrow> Missing | Some f \<Rightarrow> Float f)]"

fun delimit :: "string list \<Rightarrow> string" where
  "delimit [] = []"
| "delimit [x] = x"
| "delimit (x # y # ys) = x @ '','' @ delimit (y # ys)"

text \<open>\<^verbatim>\<open>hl.variant_str\<close>: contig, position, reference allele and the alternate alleles.\<close>

definition variant_str :: "locus \<Rightarrow> string list \<Rightarrow> string" where
  "variant_str l a =
     contig l @ '':'' @ str_int (position l) @ '':'' @ hd a @ '':'' @ delimit (tl a)"

text \<open>Lines 94 and 95, the PLINK loadings: \<open>ID\<close>, \<open>ALT\<close> and the twenty components.\<close>

definition select_loadings :: "loadings_row list \<Rightarrow> error + cell list list" where
  "select_loadings ht =
     (if \<exists>r \<in> set ht. length (loadings_alleles r) < 2 \<or> length (loadings r) < 20
      then Inl IndexOutOfBounds
      else Inr (map (\<lambda>r. Str (variant_str (loadings_locus r) (loadings_alleles r))
                          # Str (loadings_alleles r ! 1) # PC_cells (loadings r)) ht))"

text \<open>Lines 96 and 97, the companion frequency table.\<close>

definition select_afreq :: "loadings_row list \<Rightarrow> error + cell list list" where
  "select_afreq ht =
     (if \<exists>r \<in> set ht. length (loadings_alleles r) < 2 then Inl IndexOutOfBounds
      else Inr (map (\<lambda>r. [Str (variant_str (loadings_locus r) (loadings_alleles r)),
                           Str (loadings_alleles r ! 0), Str (loadings_alleles r ! 1),
                           (case pca_af r of None \<Rightarrow> Missing | Some f \<Rightarrow> Float f)]) ht))"

text \<open>
  \<^verbatim>\<open>hl.hwe_normalized_pca(mt.GT, k, compute_loadings=True)\<close> belongs to the engine and
  is the parameter \<open>hwe_normalized_pca\<close>: it returns the eigenvalues, the score vector of
  every sample and the loading vector of every variant, or fails. The stage calls it with
  \<open>k = 20\<close>.
\<close>

type_synonym pca_engine =
  "matrix_table \<Rightarrow> nat \<Rightarrow> error + real list \<times> (string \<times> real list) list \<times> (row_key \<times> real list) list"

definition run_pca :: "pca_engine \<Rightarrow> string \<Rightarrow> string \<Rightarrow> bool \<Rightarrow> storage \<Rightarrow> error + storage" where
  "run_pca hwe_normalized_pca prune_out pca_prefix overwrite st =
     (case read_matrix_table st prune_out of
        Inl e \<Rightarrow> Inl e
      | Inr mt \<Rightarrow>
      (case hwe_normalized_pca mt 20 of
        Inl e \<Rightarrow> Inl e
      | Inr (pca_evals, pca_scores, pca_loadings) \<Rightarrow>
      (case write_file st (pca_prefix @ ''scores.ht'')
              (ScoresTableFile (map (\<lambda>x. \<lparr>scores_s = fst x, scores = snd x\<rparr>) pca_scores))
              overwrite of
        Inl e \<Rightarrow> Inl e
      | Inr st1 \<Rightarrow>
      (case read_scores st1 (pca_prefix @ ''scores.ht'') of
        Inl e \<Rightarrow> Inl e
      | Inr scores_ht \<Rightarrow>
      (case transmute_scores scores_ht of
        Inl e \<Rightarrow> Inl e
      | Inr scores_txt \<Rightarrow>
      (case write_file
              (export_table
                (export_table st1 (pca_prefix @ ''scores.txt.bgz'') (''s'' # PC_names) scores_txt)
                (pca_prefix @ ''loadings.txt.bgz'')
                [''locus'', ''alleles'', ''loadings'', ''pca_af'']
                (map loadings_cells (annotate_pca_af mt pca_loadings)))
              (pca_prefix @ ''loadings.ht'')
              (LoadingsTableFile (annotate_pca_af mt pca_loadings)) overwrite of
        Inl e \<Rightarrow> Inl e
      | Inr st2 \<Rightarrow>
      (case read_loadings st2 (pca_prefix @ ''loadings.ht'') of
        Inl e \<Rightarrow> Inl e
      | Inr ht \<Rightarrow>
      (case select_loadings ht of
        Inl e \<Rightarrow> Inl e
      | Inr ht_loadings \<Rightarrow>
      (case select_afreq ht of
        Inl e \<Rightarrow> Inl e
      | Inr ht_afreq \<Rightarrow>
          Inr (export_table
                (export_table st2 (pca_prefix @ ''loadings.plink.tsv'')
                   (''ID'' # ''ALT'' # PC_names) ht_loadings)
                (pca_prefix @ ''loadings.plink.afreq'')
                [''#ID'', ''REF'', ''ALT'', ''ALT1_FREQ''] ht_afreq))))))))))"

section \<open>Example data\<close>

text \<open>
  The first chromosome of both reference genomes; a reference matrix of three samples and
  three variants; a panel of two lines on GRCh38; a panel of two lines on GRCh37, of which
  the first lifts to position 1065 of \<^verbatim>\<open>chr1\<close> and the second does not lift; and a
  storage that holds the reference matrix, the unrelated samples and the outlier list.
\<close>

definition ex_lengths :: contig_lengths where
  "ex_lengths rg c =
     (if rg = GRCh37 \<and> c = ''1'' then Some 249250621
      else if rg = GRCh38 \<and> c = ''chr1'' then Some 248956422
      else None)"

definition ex_locus :: "int \<Rightarrow> locus" where
  "ex_locus p = \<lparr>contig = ''chr1'', position = p, reference_genome = GRCh38\<rparr>"

definition ex_chain :: "string \<times> int \<Rightarrow> (string \<times> int) option" where
  "ex_chain cp = (if cp = (''1'', 1000) then Some (''chr1'', 1065) else None)"

definition ex_panel37 :: "snp list" where
  "ex_panel37 =
     [\<lparr>chr = ''1'', pos = 1000, ref = ''A'', alt = ''G''\<rparr>,
      \<lparr>chr = ''1'', pos = 5000, ref = ''C'', alt = ''T''\<rparr>]"

definition ex_panel :: "snp list" where
  "ex_panel =
     [\<lparr>chr = ''chr1'', pos = 1000, ref = ''A'', alt = ''G''\<rparr>,
      \<lparr>chr = ''chr1'', pos = 5000, ref = ''C'', alt = ''T''\<rparr>]"

definition ex_variant :: "int \<Rightarrow> string \<Rightarrow> string \<Rightarrow> call option list \<Rightarrow> row" where
  "ex_variant p a b gs =
     \<lparr>locus = ex_locus p, alleles = [a, b], filters = Some [], GT = gs\<rparr>"

definition ex_sample :: "string \<Rightarrow> string list \<Rightarrow> col" where
  "ex_sample x fs = \<lparr>col_s = x, qc_metrics_filters = Some fs\<rparr>"

definition ex_mt :: matrix_table where
  "ex_mt =
     \<lparr>sample_filters = [''fail_n_snp_residual'', ''qc_metrics_filters''],
      cols = [ex_sample ''S1'' [''sex_aneuploidy''], ex_sample ''S2'' [''n_snp_residual''],
              ex_sample ''S3'' []],
      rows = [ex_variant 1065 ''A'' ''G'' [Some (Call 0 1), Some (Call 0 0), None],
              ex_variant 1065 ''G'' ''A'' [Some (Call 0 1), Some (Call 1 1), Some (Call 0 0)],
              ex_variant 2000 ''C'' ''T'' [Some (Call 0 0), Some (Call 0 1), Some (Call 0 0)]]\<rparr>"

definition ex_storage :: storage where
  "ex_storage =
     [''ref.mt'' \<mapsto> MatrixTableFile ex_mt,
      ''unrel.mt'' \<mapsto> MatrixTableFile (ex_mt\<lparr>rows := []\<rparr>),
      ''outliers.txt'' \<mapsto> TextFile [''s''] [[Str ''S3'']]]"

text \<open>
  For the pruning stage: the reference matrix with a fourth variant that no sample
  carries, and a symmetric r2 that is high between variants at the same position.
\<close>

definition ex_ld_mt :: matrix_table where
  "ex_ld_mt =
     ex_mt\<lparr>rows := rows ex_mt @
       [ex_variant 3000 ''T'' ''C'' [Some (Call 0 0), Some (Call 0 0), Some (Call 0 0)]]\<rparr>"

definition ex_r2 :: "row \<Rightarrow> row \<Rightarrow> real" where
  "ex_r2 a b = (if position (locus a) = position (locus b) then 19 / 20 else 1 / 10)"

definition ex_ld_storage :: storage where
  "ex_ld_storage = [''intersect.mt'' \<mapsto> MatrixTableFile ex_ld_mt]"

text \<open>
  For the PCA stage: an engine that refuses a matrix with fewer samples than components
  and otherwise returns vectors of \<open>k\<close> entries, and a pruned matrix of twenty
  samples whose one variant is heterozygous in every sample.
\<close>

definition ex_engine :: pca_engine where
  "ex_engine m k =
     (if length (cols m) < k then Inl (EngineError ''k exceeds the number of samples'')
      else Inr (replicate k 1, map (\<lambda>c. (col_s c, replicate k 0)) (cols m),
                map (\<lambda>r. (row_key r, replicate k 0)) (rows m)))"

definition ex_pca_mt :: matrix_table where
  "ex_pca_mt =
     \<lparr>sample_filters = [],
      cols = map (\<lambda>i. ex_sample (''S'' @ str_nat i) []) [0..<20],
      rows = [ex_variant 1065 ''A'' ''G'' (replicate 20 (Some (Call 0 1)))]\<rparr>"

definition ex_pca_storage :: storage where
  "ex_pca_storage = [''prune.mt'' \<mapsto> MatrixTableFile ex_pca_mt]"

text \<open>A storage whose checkpoint and output paths are already occupied.\<close>

definition ex_occupied :: storage where
  "ex_occupied =
     ex_storage(''pass.mt'' \<mapsto> MatrixTableFile ex_mt, ''out.mt'' \<mapsto> MatrixTableFile ex_mt,
       ''prune.mt'' \<mapsto> MatrixTableFile ex_pca_mt,
       ''pca_scores.ht'' \<mapsto> ScoresTableFile [], ''pca_loadings.ht'' \<mapsto> LoadingsTableFile [])"

section \<open>Storage lemmas\<close>

lemma checkpoint_fresh:
  "st output = None \<Longrightarrow>
   checkpoint st (Inr mt) output overwrite read_if_exists =
     Inr (st(output \<mapsto> MatrixTableFile mt), mt)"
  by (simp add: checkpoint_def write_matrix_table_def read_matrix_table_def)

lemma checkpoint_overwrite:
  "checkpoint st (Inr mt) output True False = Inr (st(output \<mapsto> MatrixTableFile mt), mt)"
  by (simp add: checkpoint_def write_matrix_table_def read_matrix_table_def)

lemma checkpoint_reuses:
  "st output = Some (MatrixTableFile m) \<Longrightarrow> checkpoint st mt output overwrite True = Inr (st, m)"
  by (simp add: checkpoint_def read_matrix_table_def)

lemma checkpoint_computes:
  "overwrite \<or> st output = None \<Longrightarrow>
   checkpoint st mt output overwrite (\<not> overwrite) =
     (case mt of Inl e \<Rightarrow> Inl e | Inr m \<Rightarrow> Inr (st(output \<mapsto> MatrixTableFile m), m))"
  by (cases mt; cases overwrite)
    (auto simp: checkpoint_def write_matrix_table_def read_matrix_table_def)

lemma ex_read_ref: "read_matrix_table ex_storage ''ref.mt'' = Inr ex_mt"
  by (simp add: read_matrix_table_def ex_storage_def)

section \<open>Properties of the intersection stage\<close>

lemma lower_grch:
  "lower ''GRCh38'' = ''grch38''" "lower ''GRCH38'' = ''grch38''"
  "lower ''GRCh37'' = ''grch37''" "lower ''hg19'' = ''hg19''"
  by code_simp+

lemma snp_key_Inr: "snp_key lengths rg e = Inr k \<Longrightarrow> k = panel_key rg e"
  by (auto simp: snp_key_def hl_locus_def panel_key_def split: sum.splits option.splits if_splits)

lemma key_by_Inr: "key_by lengths rg es = Inr ks \<Longrightarrow> ks = map (panel_key rg) es"
  by (induction es arbitrary: ks) (auto split: sum.splits dest: snp_key_Inr)

lemma key_by_filter:
  "key_by lengths rg es = Inr ks \<Longrightarrow>
   key_by lengths rg (filter P es) = Inr (map (panel_key rg) (filter P es))"
  by (induction es arbitrary: ks) (auto split: sum.splits dest: snp_key_Inr)

lemma snp_liftover_Nil: "snp_liftover chain [] = []"
  by (simp add: snp_liftover_def)

lemma snp_liftover_Cons:
  "snp_liftover chain (k # ks) =
     (case liftover chain (fst k) GRCh38 of
        None \<Rightarrow> snp_liftover chain ks
      | Some l \<Rightarrow> (l, snd k) # snp_liftover chain ks)"
  by (simp add: snp_liftover_def split: option.splits)

lemma mem_snp_liftover_pair:
  "(l, a) \<in> set (snp_liftover chain (map (panel_key rg) es)) \<longleftrightarrow>
     (\<exists>e \<in> set es.
        liftover chain \<lparr>contig = chr e, position = hl_int (pos e), reference_genome = rg\<rparr> GRCh38 =
          Some l \<and> a = [ref e, alt e])"
  by (induction es)
    (auto simp: snp_liftover_Nil snp_liftover_Cons panel_key_def split: option.splits)

lemma mem_snp_liftover:
  "k \<in> set (snp_liftover chain (map (panel_key rg) es)) \<longleftrightarrow>
     (\<exists>e \<in> set es.
        liftover chain \<lparr>contig = chr e, position = hl_int (pos e), reference_genome = rg\<rparr> GRCh38 =
          Some (fst k) \<and> snd k = [ref e, alt e])"
  by (cases k) (simp add: mem_snp_liftover_pair)

lemma ex_key_by_38:
  "key_by ex_lengths GRCh38 ex_panel = Inr [(ex_locus 1000, [''A'', ''G'']), (ex_locus 5000, [''C'', ''T''])]"
  by (simp add: ex_panel_def snp_key_def hl_locus_def ex_lengths_def hl_int_def ex_locus_def)

lemma ex_key_by_37:
  "key_by ex_lengths GRCh37 ex_panel37 =
     Inr [(\<lparr>contig = ''1'', position = 1000, reference_genome = GRCh37\<rparr>, [''A'', ''G'']),
          (\<lparr>contig = ''1'', position = 5000, reference_genome = GRCh37\<rparr>, [''C'', ''T''])]"
  by (simp add: ex_panel37_def snp_key_def hl_locus_def ex_lengths_def hl_int_def)

lemma ex_intersect_rows_38:
  "intersect_rows ex_lengths ex_chain ex_panel ''GRCh38'' ex_mt = Inr (ex_mt\<lparr>rows := []\<rparr>)"
  by (simp add: intersect_rows_def lower_grch ex_key_by_38)
     (simp add: filter_rows_def ex_mt_def row_key_def ex_variant_def ex_locus_def)

lemma ex_intersect_rows_37:
  "intersect_rows ex_lengths ex_chain ex_panel37 ''GRCh37'' ex_mt =
     Inr (ex_mt\<lparr>rows := [ex_variant 1065 ''A'' ''G'' [Some (Call 0 1), Some (Call 0 0), None]]\<rparr>)"
  by (simp add: intersect_rows_def lower_grch ex_key_by_37)
     (simp add: filter_rows_def ex_mt_def snp_liftover_Cons snp_liftover_Nil liftover_def
        ex_chain_def row_key_def ex_variant_def ex_locus_def)

text \<open>
  C9. The label is compared after lowercasing only: two labels with the same lowercase
  form give the same result of the stage, storage included, on the same inputs.
\<close>

theorem assembly_label_case_insensitive:
  "lower label1 = lower label2 \<Longrightarrow>
   intersect_target_ref lengths chain ref_mt_filt snp_list label1 intersect_out overwrite st =
   intersect_target_ref lengths chain ref_mt_filt snp_list label2 intersect_out overwrite st"
  by (simp add: intersect_target_ref_def intersect_rows_def split: sum.splits)

theorem assembly_label_case_insensitive_witness:
  "lower ''GRCh38'' = lower ''GRCH38'' \<and>
   intersect_target_ref ex_lengths ex_chain ''ref.mt'' ex_panel ''GRCh38'' ''out.mt'' False ex_storage =
   intersect_target_ref ex_lengths ex_chain ''ref.mt'' ex_panel ''GRCH38'' ''out.mt'' False ex_storage \<and>
   intersect_target_ref ex_lengths ex_chain ''ref.mt'' ex_panel ''GRCH38'' ''out.mt'' False ex_storage =
   Inr (ex_storage(''out.mt'' \<mapsto> MatrixTableFile (ex_mt\<lparr>rows := []\<rparr>)))"
proof -
  have h: "lower ''GRCh38'' = lower ''GRCH38''"
    by (simp add: lower_grch)
  have "ex_storage ''out.mt'' = None"
    by (simp add: ex_storage_def)
  then have
    "intersect_target_ref ex_lengths ex_chain ''ref.mt'' ex_panel ''GRCh38'' ''out.mt'' False
       ex_storage =
       Inr (ex_storage(''out.mt'' \<mapsto> MatrixTableFile (ex_mt\<lparr>rows := []\<rparr>)))"
    by (simp add: intersect_target_ref_def ex_read_ref checkpoint_fresh repartition_def
        ex_intersect_rows_38)
  with h assembly_label_case_insensitive
    [OF h, of ex_lengths ex_chain "''ref.mt''" ex_panel "''out.mt''" False ex_storage]
  show ?thesis by simp
qed

text \<open>
  C1. With the label \<^verbatim>\<open>hg19\<close>, which is neither \<^verbatim>\<open>grch38\<close> nor \<^verbatim>\<open>grch37\<close> after
  lowercasing, the stage does not fail: neither branch runs, and the matrix is
  checkpointed with every variant it had, the panel unused.
\<close>

theorem unrecognized_label_keeps_every_variant:
  "intersect_target_ref ex_lengths ex_chain ''ref.mt'' ex_panel ''hg19'' ''out.mt'' False ex_storage =
     Inr (ex_storage(''out.mt'' \<mapsto> MatrixTableFile ex_mt))"
proof -
  have "ex_storage ''out.mt'' = None"
    by (simp add: ex_storage_def)
  then show ?thesis
    by (simp add: intersect_target_ref_def ex_read_ref checkpoint_fresh repartition_def
        intersect_rows_def lower_grch)
qed

lemma intersect_rows_38:
  assumes "lower label = ''grch38''" and "key_by lengths GRCh38 snp_list = Inr keys"
  shows "intersect_rows lengths chain snp_list label mt =
     Inr (filter_rows
            (\<lambda>r. \<exists>e \<in> set snp_list.
                   locus r = \<lparr>contig = chr e, position = hl_int (pos e), reference_genome = GRCh38\<rparr> \<and>
                   alleles r = [ref e, alt e]) mt)"
proof -
  have "filter (\<lambda>r. row_key r \<in> set (map (panel_key GRCh38) snp_list)) (rows mt) =
      filter (\<lambda>r. \<exists>e \<in> set snp_list.
                   locus r = \<lparr>contig = chr e, position = hl_int (pos e), reference_genome = GRCh38\<rparr> \<and>
                   alleles r = [ref e, alt e]) (rows mt)"
    by (rule filter_cong [OF refl]) (auto simp: row_key_def panel_key_def)
  with assms key_by_Inr [OF assms(2)] show ?thesis
    by (simp add: intersect_rows_def filter_rows_def)
qed

lemma intersect_rows_37:
  assumes "lower label = ''grch37''" and "key_by lengths GRCh37 snp_list = Inr keys"
  shows "intersect_rows lengths chain snp_list label mt =
     Inr (filter_rows
            (\<lambda>r. \<exists>e \<in> set snp_list.
                   liftover chain
                     \<lparr>contig = chr e, position = hl_int (pos e), reference_genome = GRCh37\<rparr> GRCh38 =
                     Some (locus r) \<and>
                   alleles r = [ref e, alt e]) mt)"
  using assms key_by_Inr [OF assms(2)]
  by (simp add: intersect_rows_def filter_rows_def mem_snp_liftover row_key_def)

lemma unmatched_ignored_38:
  assumes "lower label = ''grch38''" and "key_by lengths GRCh38 snp_list = Inr keys"
  shows "intersect_rows lengths chain
           (filter (\<lambda>e. panel_key GRCh38 e \<in> set (map row_key (rows mt))) snp_list) label mt =
         intersect_rows lengths chain snp_list label mt"
proof -
  let ?M = "\<lambda>e. panel_key GRCh38 e \<in> set (map row_key (rows mt))"
  have "filter (\<lambda>r. row_key r \<in> set (map (panel_key GRCh38) (filter ?M snp_list))) (rows mt) =
        filter (\<lambda>r. row_key r \<in> set (map (panel_key GRCh38) snp_list)) (rows mt)"
  proof (rule filter_cong [OF refl])
    fix r assume r: "r \<in> set (rows mt)"
    show "(row_key r \<in> set (map (panel_key GRCh38) (filter ?M snp_list))) =
          (row_key r \<in> set (map (panel_key GRCh38) snp_list))"
    proof
      assume "row_key r \<in> set (map (panel_key GRCh38) snp_list)"
      then obtain e where e: "e \<in> set snp_list" "row_key r = panel_key GRCh38 e"
        by auto
      with r have "?M e"
        by (metis image_eqI set_map)
      with e show "row_key r \<in> set (map (panel_key GRCh38) (filter ?M snp_list))"
        by auto
    qed auto
  qed
  moreover have "key_by lengths GRCh38 snp_list = Inr (map (panel_key GRCh38) snp_list)"
    using assms(2) key_by_Inr [OF assms(2)] by simp
  ultimately show ?thesis
    using assms(1) key_by_filter [OF assms(2), of ?M]
    by (simp add: intersect_rows_def filter_rows_def)
qed

lemma unmatched_ignored_37:
  assumes "lower label = ''grch37''" and "key_by lengths GRCh37 snp_list = Inr keys"
  shows "intersect_rows lengths chain
           (filter (\<lambda>e. case liftover chain (fst (panel_key GRCh37 e)) GRCh38 of
                          None \<Rightarrow> False
                        | Some l \<Rightarrow> (l, [ref e, alt e]) \<in> set (map row_key (rows mt))) snp_list)
           label mt =
         intersect_rows lengths chain snp_list label mt"
proof -
  let ?M = "\<lambda>e. case liftover chain (fst (panel_key GRCh37 e)) GRCh38 of
                  None \<Rightarrow> False
                | Some l \<Rightarrow> (l, [ref e, alt e]) \<in> set (map row_key (rows mt))"
  have "filter (\<lambda>r. row_key r \<in> set (snp_liftover chain (map (panel_key GRCh37) (filter ?M snp_list))))
          (rows mt) =
        filter (\<lambda>r. row_key r \<in> set (snp_liftover chain (map (panel_key GRCh37) snp_list))) (rows mt)"
  proof (rule filter_cong [OF refl])
    fix r assume r: "r \<in> set (rows mt)"
    show "(row_key r \<in> set (snp_liftover chain (map (panel_key GRCh37) (filter ?M snp_list)))) =
          (row_key r \<in> set (snp_liftover chain (map (panel_key GRCh37) snp_list)))"
    proof
      assume "row_key r \<in> set (snp_liftover chain (map (panel_key GRCh37) snp_list))"
      then obtain e where e: "e \<in> set snp_list"
          "liftover chain \<lparr>contig = chr e, position = hl_int (pos e), reference_genome = GRCh37\<rparr>
             GRCh38 = Some (fst (row_key r))"
          "snd (row_key r) = [ref e, alt e]"
        unfolding mem_snp_liftover by blast
      from r have "row_key r \<in> set (map row_key (rows mt))"
        by simp
      with e(2,3) have "?M e"
        by (simp add: panel_key_def) (metis prod.collapse)
      with e show "row_key r \<in> set (snp_liftover chain (map (panel_key GRCh37) (filter ?M snp_list)))"
        unfolding mem_snp_liftover by auto
    next
      assume "row_key r \<in> set (snp_liftover chain (map (panel_key GRCh37) (filter ?M snp_list)))"
      then show "row_key r \<in> set (snp_liftover chain (map (panel_key GRCh37) snp_list))"
        unfolding mem_snp_liftover by auto
    qed
  qed
  moreover have "key_by lengths GRCh37 snp_list = Inr (map (panel_key GRCh37) snp_list)"
    using assms(2) key_by_Inr [OF assms(2)] by simp
  ultimately show ?thesis
    using assms(1) key_by_filter [OF assms(2), of ?M]
    by (simp add: intersect_rows_def filter_rows_def)
qed

lemma intersect_rows_invalid:
  assumes "lower label = ''grch38'' \<and> key_by lengths GRCh38 snp_list = Inl err \<or>
           lower label = ''grch37'' \<and> key_by lengths GRCh37 snp_list = Inl err"
  shows "intersect_rows lengths chain snp_list label mt = Inl err"
  using assms by (auto simp: intersect_rows_def)

lemma intersect_target_ref_computes:
  assumes "read_matrix_table st ref_mt_filt = Inr mt" and "overwrite \<or> st intersect_out = None"
  shows "intersect_target_ref lengths chain ref_mt_filt snp_list label intersect_out overwrite st =
     (case intersect_rows lengths chain snp_list label mt of
        Inl e \<Rightarrow> Inl e
      | Inr m \<Rightarrow> Inr (st(intersect_out \<mapsto> MatrixTableFile m)))"
  using assms
  by (simp add: intersect_target_ref_def checkpoint_computes repartition_def split: sum.splits)

lemma intersect_target_ref_reuses:
  assumes "read_matrix_table st ref_mt_filt = Inr mt"
    and "st intersect_out = Some (MatrixTableFile m)"
  shows "intersect_target_ref lengths chain ref_mt_filt snp_list label intersect_out False st = Inr st"
  using assms by (simp add: intersect_target_ref_def checkpoint_reuses)

text \<open>
  C3, as the code has it. When the stage computes (the flag is set or nothing is stored
  at \<open>intersect_out\<close>, a path other than the input's) and every panel line is a
  locus of the labelled reference genome, the position taken as a 32-bit integer, the
  matrix stored is a semi-join. With
  a label that lowercases to \<^verbatim>\<open>grch38\<close>, the rows kept are exactly the rows of the
  matrix, in their order, whose locus and alleles are those of some panel line. With a
  label that lowercases to \<^verbatim>\<open>grch37\<close>, they are exactly the rows whose locus is the
  lifted locus of some panel line and whose alleles are that line's \<open>[ref, alt]\<close>; a
  line that does not lift matches nothing and raises nothing. The panel lines that match
  no row can be removed from the panel without changing the result. A panel line that
  is no locus of the labelled reference genome fails the stage. When the flag is unset
  and a matrix is stored at \<open>intersect_out\<close>, the stage leaves the storage as it is.
\<close>

theorem computed_intersection_is_semi_join:
  "(lower label = ''grch38'' \<and> key_by lengths GRCh38 snp_list = Inr keys \<longrightarrow>
      intersect_rows lengths chain snp_list label mt =
        Inr (filter_rows
               (\<lambda>r. \<exists>e \<in> set snp_list.
                      locus r =
                        \<lparr>contig = chr e, position = hl_int (pos e), reference_genome = GRCh38\<rparr> \<and>
                      alleles r = [ref e, alt e]) mt) \<and>
      intersect_rows lengths chain
        (filter (\<lambda>e. panel_key GRCh38 e \<in> set (map row_key (rows mt))) snp_list) label mt =
      intersect_rows lengths chain snp_list label mt) \<and>
   (lower label = ''grch37'' \<and> key_by lengths GRCh37 snp_list = Inr keys \<longrightarrow>
      intersect_rows lengths chain snp_list label mt =
        Inr (filter_rows
               (\<lambda>r. \<exists>e \<in> set snp_list.
                      liftover chain
                        \<lparr>contig = chr e, position = hl_int (pos e), reference_genome = GRCh37\<rparr>
                        GRCh38 = Some (locus r) \<and>
                      alleles r = [ref e, alt e]) mt) \<and>
      intersect_rows lengths chain
        (filter (\<lambda>e. case liftover chain (fst (panel_key GRCh37 e)) GRCh38 of
                       None \<Rightarrow> False
                     | Some l \<Rightarrow> (l, [ref e, alt e]) \<in> set (map row_key (rows mt))) snp_list)
        label mt =
      intersect_rows lengths chain snp_list label mt) \<and>
   (lower label = ''grch38'' \<and> key_by lengths GRCh38 snp_list = Inl err \<or>
    lower label = ''grch37'' \<and> key_by lengths GRCh37 snp_list = Inl err \<longrightarrow>
      intersect_rows lengths chain snp_list label mt = Inl err) \<and>
   (read_matrix_table st ref_mt_filt = Inr mt \<and> ref_mt_filt \<noteq> intersect_out \<and>
    (overwrite \<or> st intersect_out = None) \<longrightarrow>
      intersect_target_ref lengths chain ref_mt_filt snp_list label intersect_out overwrite st =
        (case intersect_rows lengths chain snp_list label mt of
           Inl e \<Rightarrow> Inl e
         | Inr m \<Rightarrow> Inr (st(intersect_out \<mapsto> MatrixTableFile m)))) \<and>
   (read_matrix_table st ref_mt_filt = Inr mt \<and> st intersect_out = Some (MatrixTableFile stored) \<longrightarrow>
      intersect_target_ref lengths chain ref_mt_filt snp_list label intersect_out False st = Inr st)"
  using intersect_rows_38 [of label lengths snp_list keys chain mt]
    intersect_rows_37 [of label lengths snp_list keys chain mt]
    unmatched_ignored_38 [of label lengths snp_list keys chain mt]
    unmatched_ignored_37 [of label lengths snp_list keys chain mt]
    intersect_rows_invalid [of label lengths snp_list err chain mt]
    intersect_target_ref_computes
      [of st ref_mt_filt mt overwrite intersect_out lengths chain snp_list label]
    intersect_target_ref_reuses
      [of st ref_mt_filt mt intersect_out stored lengths chain snp_list label]
  by blast

theorem computed_intersection_is_semi_join_witness:
  "lower ''GRCh37'' = ''grch37'' \<and>
   key_by ex_lengths GRCh37 ex_panel37 =
     Inr [(\<lparr>contig = ''1'', position = 1000, reference_genome = GRCh37\<rparr>, [''A'', ''G'']),
          (\<lparr>contig = ''1'', position = 5000, reference_genome = GRCh37\<rparr>, [''C'', ''T''])] \<and>
   read_matrix_table ex_storage ''ref.mt'' = Inr ex_mt \<and>
   ex_storage ''out.mt'' = None \<and>
   intersect_rows ex_lengths ex_chain ex_panel37 ''GRCh37'' ex_mt =
     Inr (ex_mt\<lparr>rows := [ex_variant 1065 ''A'' ''G'' [Some (Call 0 1), Some (Call 0 0), None]]\<rparr>) \<and>
   intersect_rows ex_lengths ex_chain [\<lparr>chr = ''1'', pos = 1000, ref = ''A'', alt = ''G''\<rparr>]
     ''GRCh37'' ex_mt =
     intersect_rows ex_lengths ex_chain ex_panel37 ''GRCh37'' ex_mt \<and>
   intersect_target_ref ex_lengths ex_chain ''ref.mt'' ex_panel37 ''GRCh37'' ''out.mt'' False
     ex_storage =
     Inr (ex_storage(''out.mt'' \<mapsto> MatrixTableFile
       (ex_mt\<lparr>rows := [ex_variant 1065 ''A'' ''G'' [Some (Call 0 1), Some (Call 0 0), None]]\<rparr>)))"
proof -
  have l: "lower ''GRCh37'' = ''grch37''"
    by (simp add: lower_grch)
  have n: "ex_storage ''out.mt'' = None"
    by (simp add: ex_storage_def)
  have f: "filter (\<lambda>e. case liftover ex_chain (fst (panel_key GRCh37 e)) GRCh38 of
                       None \<Rightarrow> False
                     | Some l \<Rightarrow> (l, [ref e, alt e]) \<in> set (map row_key (rows ex_mt))) ex_panel37 =
           [\<lparr>chr = ''1'', pos = 1000, ref = ''A'', alt = ''G''\<rparr>]"
    by (simp add: ex_panel37_def liftover_def ex_chain_def panel_key_def hl_int_def ex_mt_def
        row_key_def ex_variant_def ex_locus_def)
  from computed_intersection_is_semi_join
    [where label = "''GRCh37''" and lengths = ex_lengths and snp_list = ex_panel37
      and chain = ex_chain and mt = ex_mt and st = ex_storage and ref_mt_filt = "''ref.mt''"
      and overwrite = False and intersect_out = "''out.mt''"]
    l n f ex_read_ref ex_key_by_37 ex_intersect_rows_37
  show ?thesis
    by simp
qed

text \<open>
  C3 as stated fails when the flag is unset and a matrix is stored at the output path:
  the stage leaves it there, and none of its three variants has the key of a panel line.
  It fails too on a panel line that names \<^verbatim>\<open>chr1\<close> under GRCh37, where the contig is
  \<^verbatim>\<open>1\<close>: the stage raises.
\<close>

theorem reused_checkpoint_is_no_semi_join:
  "intersect_target_ref ex_lengths ex_chain ''ref.mt'' ex_panel ''GRCh38'' ''out.mt'' False
     ex_occupied = Inr ex_occupied \<and>
   ex_occupied ''out.mt'' = Some (MatrixTableFile ex_mt) \<and>
   key_by ex_lengths GRCh38 ex_panel =
     Inr [(ex_locus 1000, [''A'', ''G'']), (ex_locus 5000, [''C'', ''T''])] \<and>
   map row_key (rows ex_mt) =
     [(ex_locus 1065, [''A'', ''G'']), (ex_locus 1065, [''G'', ''A'']), (ex_locus 2000, [''C'', ''T''])] \<and>
   ex_locus 1065 \<noteq> ex_locus 1000 \<and> ex_locus 1065 \<noteq> ex_locus 5000 \<and>
   ex_locus 2000 \<noteq> ex_locus 1000 \<and> ex_locus 2000 \<noteq> ex_locus 5000 \<and>
   intersect_target_ref ex_lengths ex_chain ''ref.mt'' ex_panel ''GRCh37'' ''out.mt'' True
     ex_storage = Inl (InvalidLocus ''chr1'' 1000)"
proof -
  have r: "read_matrix_table ex_occupied ''ref.mt'' = Inr ex_mt"
    and o: "ex_occupied ''out.mt'' = Some (MatrixTableFile ex_mt)"
    by (simp_all add: ex_occupied_def ex_storage_def read_matrix_table_def)
  have a: "intersect_target_ref ex_lengths ex_chain ''ref.mt'' ex_panel ''GRCh38'' ''out.mt'' False
     ex_occupied = Inr ex_occupied"
    by (rule intersect_target_ref_reuses [OF r o])
  have k: "map row_key (rows ex_mt) =
     [(ex_locus 1065, [''A'', ''G'']), (ex_locus 1065, [''G'', ''A'']), (ex_locus 2000, [''C'', ''T''])]"
    by (simp add: ex_mt_def row_key_def ex_variant_def)
  have d: "ex_locus 1065 \<noteq> ex_locus 1000" "ex_locus 1065 \<noteq> ex_locus 5000"
    "ex_locus 2000 \<noteq> ex_locus 1000" "ex_locus 2000 \<noteq> ex_locus 5000"
    by (simp_all add: ex_locus_def)
  have "key_by ex_lengths GRCh37 ex_panel = Inl (InvalidLocus ''chr1'' 1000)"
    by (simp add: ex_panel_def snp_key_def hl_locus_def ex_lengths_def hl_int_def)
  then have e: "intersect_target_ref ex_lengths ex_chain ''ref.mt'' ex_panel ''GRCh37'' ''out.mt'' True
     ex_storage = Inl (InvalidLocus ''chr1'' 1000)"
    by (simp add: intersect_target_ref_computes [OF ex_read_ref] intersect_rows_def lower_grch)
  from a o ex_key_by_38 k d e show ?thesis
    by (intro conjI)
qed

section \<open>Allele counts and frequencies\<close>

lemma sum_n_alt_le: "sum_n_alt gs \<le> 2 * n_called gs"
  by (induction gs)
    (auto simp: sum_n_alt_def n_called_def n_alt_alleles_def split: option.splits call.splits)

lemma AC0_plus_alt: "variant_qc_AC 0 gs + sum_n_alt gs = 2 * n_called gs"
  by (induction gs)
    (auto simp: sum_n_alt_def n_called_def n_alt_alleles_def variant_qc_AC_def
      split: option.splits call.splits)

lemma AC1_eq_alt:
  "\<forall>g \<in> set gs. \<forall>a b. g = Some (Call a b) \<longrightarrow> a \<le> 1 \<and> b \<le> 1 \<Longrightarrow>
   variant_qc_AC 1 gs = sum_n_alt gs"
  by (induction gs)
    (auto simp: sum_n_alt_def n_alt_alleles_def variant_qc_AC_def
      split: option.splits call.splits)

lemma row_pca_af_eq:
  "row_pca_af r =
     (if n_called (GT r) = 0 then None
      else Some (real (sum_n_alt (GT r)) / real (2 * n_called (GT r))))"
  by (simp add: row_pca_af_def agg_mean_n_alt_alleles_def)

lemma row_pca_af_bounds:
  assumes "0 < n_called (GT r)"
  shows "\<exists>f. row_pca_af r = Some f \<and> 0 \<le> f \<and> f \<le> 1"
proof -
  let ?n = "n_called (GT r)"
  have "real (sum_n_alt (GT r)) \<le> real (2 * ?n)"
    using sum_n_alt_le [of "GT r"] by (simp only: of_nat_le_iff)
  moreover have "0 < real (2 * ?n)"
    using assms by simp
  ultimately have "real (sum_n_alt (GT r)) / real (2 * ?n) \<le> 1"
    by (simp only: divide_le_eq_1_pos)
  moreover have "0 \<le> real (sum_n_alt (GT r)) / real (2 * ?n)"
    by simp
  ultimately show ?thesis
    using assms by (simp add: row_pca_af_eq)
qed

lemma lookup_pca_af_bounds:
  assumes "lookup_pca_af mt k = Some f"
  shows "0 \<le> f \<and> f \<le> 1"
proof -
  from assms obtain r where r: "row_pca_af r = Some f"
    by (auto simp: lookup_pca_af_def split: option.splits)
  then have "0 < n_called (GT r)"
    by (auto simp: row_pca_af_eq split: if_splits)
  from row_pca_af_bounds [OF this] r show ?thesis
    by auto
qed

text \<open>
  C10. A row with at least one defined call has a \<open>pca_af\<close>, the mean number of
  alternate alleles over its defined calls divided by 2, and the value lies in the closed
  interval from 0 to 1; hence every \<open>pca_af\<close> that the stage joins to a loading lies
  there too.
\<close>

theorem pca_af_in_unit_interval:
  "(0 < n_called (GT r) \<longrightarrow> (\<exists>f. row_pca_af r = Some f \<and> 0 \<le> f \<and> f \<le> 1)) \<and>
   (lookup_pca_af mt k = Some f \<longrightarrow> 0 \<le> f \<and> f \<le> 1)"
  using row_pca_af_bounds [of r] lookup_pca_af_bounds [of mt k f] by blast

lemma ex_row_pca_af:
  "row_pca_af (ex_variant 1065 ''A'' ''G'' [Some (Call 0 1), Some (Call 0 0), None]) = Some (1 / 4)"
  by (simp add: row_pca_af_def agg_mean_n_alt_alleles_def ex_variant_def n_called_def
      sum_n_alt_def n_alt_alleles_def)

theorem pca_af_in_unit_interval_witness:
  "0 < n_called (GT (ex_variant 1065 ''A'' ''G'' [Some (Call 0 1), Some (Call 0 0), None])) \<and>
   row_pca_af (ex_variant 1065 ''A'' ''G'' [Some (Call 0 1), Some (Call 0 0), None]) = Some (1 / 4) \<and>
   lookup_pca_af ex_mt (ex_locus 1065, [''A'', ''G'']) = Some (1 / 4) \<and>
   (0::real) \<le> 1 / 4 \<and> (1 / 4 :: real) \<le> 1"
proof -
  have n: "0 < n_called (GT (ex_variant 1065 ''A'' ''G'' [Some (Call 0 1), Some (Call 0 0), None]))"
    by (simp add: ex_variant_def n_called_def)
  have "find (\<lambda>r. row_key r = (ex_locus 1065, [''A'', ''G''])) (rows ex_mt) =
      Some (ex_variant 1065 ''A'' ''G'' [Some (Call 0 1), Some (Call 0 0), None])"
    by (simp add: ex_mt_def row_key_def ex_variant_def)
  then have l: "lookup_pca_af ex_mt (ex_locus 1065, [''A'', ''G'']) = Some (1 / 4)"
    by (simp add: lookup_pca_af_def ex_row_pca_af del: One_nat_def)
  from pca_af_in_unit_interval
    [of "ex_variant 1065 ''A'' ''G'' [Some (Call 0 1), Some (Call 0 0), None]" ex_mt
      "(ex_locus 1065, [''A'', ''G''])" "1 / 4"] n l
  show ?thesis
    by (simp add: ex_row_pca_af del: One_nat_def)
qed


section \<open>Properties of the pruning stage\<close>

lemma write_file_Inr:
  "write_file st p f overwrite = Inr st' \<Longrightarrow> st' = st(p \<mapsto> f)"
  by (auto simp: write_file_def split: if_splits)

lemma ld_prune_filter_Inr:
  assumes "ld_prune_filter ld_prune intersect_out prune_out overwrite st = Inr st'"
  obtains mt mt_filt keys where
    "read_matrix_table st intersect_out = Inr mt"
    "af_filter mt = Inr mt_filt"
    "ld_prune mt_filt (8 / 10) 500000 = Inr keys"
    "st' = st(prune_out \<mapsto> MatrixTableFile (filter_rows (\<lambda>r. row_key r \<in> set keys) mt_filt))"
  using assms
  by (auto simp: ld_prune_filter_def split: sum.splits dest!: write_file_Inr)

lemma af_filter_Inr:
  assumes "af_filter mt = Inr mt_filt"
  shows "mt_filt = filter_rows AF0_in_range mt" and "\<forall>r \<in> set (rows mt). alleles r \<noteq> []"
  using assms by (auto simp: af_filter_def variant_qc_AF_def split: if_splits)

lemma AF0_in_range_alt:
  assumes "AF0_in_range r" and "alleles r \<noteq> []"
  shows "\<exists>f. row_pca_af r = Some f \<and> 1 / 1000 < f \<and> f < 999 / 1000"
proof -
  let ?n = "n_called (GT r)"
  from assms(2) have nth0: "variant_qc_AF r ! 0 =
      (if variant_qc_AN (GT r) = 0 then None
       else Some (real (variant_qc_AC 0 (GT r)) / real (variant_qc_AN (GT r))))"
    by (simp add: variant_qc_AF_def nth_map_upt)
  with assms(1) have n: "?n \<noteq> 0"
    and lo: "1 / 1000 < real (variant_qc_AC 0 (GT r)) / real (2 * ?n)"
    and hi: "real (variant_qc_AC 0 (GT r)) / real (2 * ?n) < 999 / 1000"
    by (auto simp: AF0_in_range_def variant_qc_AN_def split: if_splits)
  have "real (variant_qc_AC 0 (GT r)) + real (sum_n_alt (GT r)) = real (2 * ?n)"
    using AC0_plus_alt [of "GT r"] by (metis of_nat_add)
  then have "real (sum_n_alt (GT r)) / real (2 * ?n) =
      1 - real (variant_qc_AC 0 (GT r)) / real (2 * ?n)"
    using n by (simp add: field_simps)
  with lo hi n show ?thesis
    by (simp add: row_pca_af_eq)
qed

lemma AF1_eq_pca_af:
  assumes "length (alleles r) = 2"
    and "\<forall>g \<in> set (GT r). \<forall>a b. g = Some (Call a b) \<longrightarrow> a \<le> 1 \<and> b \<le> 1"
  shows "variant_qc_AF r ! 1 = row_pca_af r"
proof -
  from assms(1) have "variant_qc_AF r ! 1 =
      (if variant_qc_AN (GT r) = 0 then None
       else Some (real (variant_qc_AC 1 (GT r)) / real (variant_qc_AN (GT r))))"
    by (simp add: variant_qc_AF_def nth_map_upt del: One_nat_def)
  then show ?thesis
    using AC1_eq_alt [OF assms(2)] by (simp add: row_pca_af_eq variant_qc_AN_def)
qed

text \<open>
  C4. Every variant of the matrix that the pruning stage writes has an alternate allele
  frequency strictly between 0.001 and 0.999. The frequency is the mean number of
  alternate alleles over the defined calls of the row, halved (the \<open>pca_af\<close> of line
  79); for a biallelic row whose calls use the alleles 0 and 1 it is the entry
  \<open>AF[1]\<close> of \<^verbatim>\<open>variant_qc\<close>. The stage tests \<open>AF[0]\<close>, the reference allele's
  frequency, which is one minus it. This holds for whatever keys \<open>ld_prune\<close> returns.
\<close>

theorem retained_frequency_in_open_interval:
  assumes "ld_prune_filter ld_prune intersect_out prune_out overwrite st = Inr st'"
    and "st' prune_out = Some (MatrixTableFile pruned)"
    and "r \<in> set (rows pruned)"
  shows "\<exists>f. row_pca_af r = Some f \<and> 1 / 1000 < f \<and> f < 999 / 1000 \<and>
             (length (alleles r) = 2 \<and>
              (\<forall>g \<in> set (GT r). \<forall>a b. g = Some (Call a b) \<longrightarrow> a \<le> 1 \<and> b \<le> 1) \<longrightarrow>
              variant_qc_AF r ! 1 = Some f)"
proof -
  from assms(1) obtain mt mt_filt keys where
    af: "af_filter mt = Inr mt_filt" and
    st': "st' = st(prune_out \<mapsto> MatrixTableFile (filter_rows (\<lambda>r. row_key r \<in> set keys) mt_filt))"
    by (rule ld_prune_filter_Inr)
  from st' assms(2) have "pruned = filter_rows (\<lambda>r. row_key r \<in> set keys) mt_filt"
    by simp
  with assms(3) af_filter_Inr [OF af] have "r \<in> set (rows mt)" "AF0_in_range r" "alleles r \<noteq> []"
    by (auto simp: filter_rows_def)
  from AF0_in_range_alt [OF this(2,3)] obtain f where
    f: "row_pca_af r = Some f" "1 / 1000 < f" "f < 999 / 1000"
    by blast
  with AF1_eq_pca_af [of r] show ?thesis
    by auto
qed


lemma ex_af_filter: "af_filter ex_ld_mt = Inr ex_mt"
  by (simp add: af_filter_def ex_ld_mt_def ex_mt_def filter_rows_def AF0_in_range_def
      variant_qc_AF_def variant_qc_AN_def variant_qc_AC_def n_called_def ex_variant_def)

lemma ex_ld_prune_spec:
  "ld_prune_spec ex_r2 ex_mt (8 / 10) 500000 =
     Inr [(ex_locus 1065, [''A'', ''G'']), (ex_locus 2000, [''C'', ''T''])]"
  by (simp add: ld_prune_spec_def ex_mt_def ex_variant_def ld_conflict_def in_window_def
      ex_r2_def ex_locus_def row_key_def)

lemma ex_ld_prune_filter:
  "ld_prune_filter (ld_prune_spec ex_r2) ''intersect.mt'' ''prune.mt'' False ex_ld_storage =
     Inr (ex_ld_storage(''prune.mt'' \<mapsto> MatrixTableFile
       (ex_mt\<lparr>rows := [ex_variant 1065 ''A'' ''G'' [Some (Call 0 1), Some (Call 0 0), None],
                       ex_variant 2000 ''C'' ''T'' [Some (Call 0 0), Some (Call 0 1), Some (Call 0 0)]]\<rparr>)))"
proof -
  have r: "read_matrix_table ex_ld_storage ''intersect.mt'' = Inr ex_ld_mt"
    by (simp add: read_matrix_table_def ex_ld_storage_def)
  have f: "filter_rows (\<lambda>r. row_key r \<in> set [(ex_locus 1065, [''A'', ''G'']),
        (ex_locus 2000, [''C'', ''T''])]) ex_mt =
      ex_mt\<lparr>rows := [ex_variant 1065 ''A'' ''G'' [Some (Call 0 1), Some (Call 0 0), None],
                       ex_variant 2000 ''C'' ''T'' [Some (Call 0 0), Some (Call 0 1), Some (Call 0 0)]]\<rparr>"
    by (simp add: filter_rows_def ex_mt_def row_key_def ex_variant_def ex_locus_def)
  have w: "ex_ld_storage ''prune.mt'' = None"
    by (simp add: ex_ld_storage_def)
  show ?thesis
    unfolding ld_prune_filter_def
    by (simp only: r ex_af_filter ex_ld_prune_spec f sum.case write_file_def w)
       (simp del: One_nat_def)
qed

theorem retained_frequency_in_open_interval_witness:
  "ld_prune_filter (ld_prune_spec ex_r2) ''intersect.mt'' ''prune.mt'' False ex_ld_storage =
     Inr (ex_ld_storage(''prune.mt'' \<mapsto> MatrixTableFile
       (ex_mt\<lparr>rows := [ex_variant 1065 ''A'' ''G'' [Some (Call 0 1), Some (Call 0 0), None],
                       ex_variant 2000 ''C'' ''T'' [Some (Call 0 0), Some (Call 0 1), Some (Call 0 0)]]\<rparr>))) \<and>
   row_pca_af (ex_variant 1065 ''A'' ''G'' [Some (Call 0 1), Some (Call 0 0), None]) = Some (1 / 4) \<and>
   variant_qc_AF (ex_variant 1065 ''A'' ''G'' [Some (Call 0 1), Some (Call 0 0), None]) ! 1 = Some (1 / 4) \<and>
   (1 / 1000 :: real) < 1 / 4 \<and> (1 / 4 :: real) < 999 / 1000"
proof -
  let ?r = "ex_variant 1065 ''A'' ''G'' [Some (Call 0 1), Some (Call 0 0), None]"
  let ?m = "ex_mt\<lparr>rows := [?r,
      ex_variant 2000 ''C'' ''T'' [Some (Call 0 0), Some (Call 0 1), Some (Call 0 0)]]\<rparr>"
  have s: "(ex_ld_storage(''prune.mt'' \<mapsto> MatrixTableFile ?m)) ''prune.mt'' = Some (MatrixTableFile ?m)"
    by simp
  have m: "?r \<in> set (rows ?m)"
    by simp
  have b: "length (alleles ?r) = 2 \<and>
      (\<forall>g \<in> set (GT ?r). \<forall>a b. g = Some (Call a b) \<longrightarrow> a \<le> 1 \<and> b \<le> 1)"
    by (simp add: ex_variant_def)
  from retained_frequency_in_open_interval [OF ex_ld_prune_filter s m] b
  show ?thesis
    by (auto simp: ex_ld_prune_filter ex_row_pca_af simp del: One_nat_def)
qed


lemma greedy_prune_subset: "set (greedy_prune cf xs) \<subseteq> set xs"
proof (induction cf xs rule: greedy_prune.induct)
  case (1 cf)
  show ?case by simp
next
  case (2 cf v vs)
  have "set (filter (\<lambda>u. \<not> cf v u) vs) \<subseteq> set vs"
    by (rule filter_is_subset)
  with "2.IH" have "set (greedy_prune cf (filter (\<lambda>u. \<not> cf v u) vs)) \<subseteq> set vs"
    by (rule subset_trans)
  then show ?case
    by (simp only: greedy_prune.simps list.set) blast
qed


lemma greedy_prune_no_conflict:
  "sorted_wrt (\<lambda>a b. \<not> cf a b) (greedy_prune cf xs)"
proof (induction cf xs rule: greedy_prune.induct)
  case (1 cf)
  show ?case by simp
next
  case (2 cf v vs)
  have "set (greedy_prune cf (filter (\<lambda>u. \<not> cf v u) vs)) \<subseteq> set (filter (\<lambda>u. \<not> cf v u) vs)"
    by (rule greedy_prune_subset)
  then have "\<forall>u \<in> set (greedy_prune cf (filter (\<lambda>u. \<not> cf v u) vs)). \<not> cf v u"
    by (simp only: set_filter) blast
  with "2.IH" show ?case
    by (simp only: greedy_prune.simps sorted_wrt.simps simp_thms)
qed

lemma sorted_wrt_symmetric_pairs:
  assumes "sorted_wrt P xs" and "\<forall>a b. P a b \<longrightarrow> P b a"
    and "a \<in> set xs" and "b \<in> set xs" and "a \<noteq> b"
  shows "P a b"
  using assms by (induction xs) auto

lemma in_window_sym: "in_window w a b \<Longrightarrow> in_window w b a"
  unfolding in_window_def by (simp only: abs_minus_commute [of "position (locus b)"])

lemma ld_conflict_sym:
  assumes "\<forall>a b. r2 a b = r2 b a" and "ld_conflict r2 t w a b"
  shows "ld_conflict r2 t w b a"
proof -
  from assms(2) have "in_window w a b" and "t \<le> r2 a b"
    unfolding ld_conflict_def by blast+
  moreover from assms(1) have "r2 a b = r2 b a"
    by (rule allE) (erule allE)
  ultimately show ?thesis
    unfolding ld_conflict_def using in_window_sym [of w a b] by (simp only: simp_thms)
qed

lemma distinct_keys_member:
  assumes "distinct (map row_key xs)" and "a \<in> set xs" and "g \<in> set xs"
    and "row_key a = row_key g"
  shows "a = g"
  using assms by (meson distinct_map inj_onD)

text \<open>
  C5. With the pruning of section 4.4 for \<open>ld_prune\<close>, a symmetric r2, and an input
  matrix without duplicate keys: two distinct variants of the matrix that the stage writes,
  on the same contig and at most 500000 base pairs apart, have an r2 strictly below 0.8.
\<close>

theorem retained_pairs_below_threshold:
  assumes "\<forall>a b. r2 a b = r2 b a"
    and "read_matrix_table st intersect_out = Inr mt"
    and "distinct (map row_key (rows mt))"
    and "ld_prune_filter (ld_prune_spec r2) intersect_out prune_out overwrite st = Inr st'"
    and "st' prune_out = Some (MatrixTableFile pruned)"
    and "a \<in> set (rows pruned)" and "b \<in> set (rows pruned)" and "a \<noteq> b"
    and "contig (locus a) = contig (locus b)"
    and "\<bar>position (locus a) - position (locus b)\<bar> \<le> 500000"
  shows "r2 a b < 8 / 10"
proof -
  let ?cf = "ld_conflict r2 (8 / 10) 500000"
  from assms(4) obtain mt' mt_filt keys where
    rd: "read_matrix_table st intersect_out = Inr mt'" and
    af: "af_filter mt' = Inr mt_filt" and
    ks: "ld_prune_spec r2 mt_filt (8 / 10) 500000 = Inr keys" and
    st': "st' = st(prune_out \<mapsto> MatrixTableFile (filter_rows (\<lambda>r. row_key r \<in> set keys) mt_filt))"
    by (rule ld_prune_filter_Inr)
  from rd assms(2) have "mt' = mt" by simp
  with af_filter_Inr(1) [OF af] have mf: "rows mt_filt = filter AF0_in_range (rows mt)"
    by (simp add: filter_rows_def)
  with assms(3) have dist: "distinct (map row_key (rows mt_filt))"
    by (simp add: distinct_map_filter)
  let ?G = "greedy_prune ?cf (sort_key (\<lambda>r. position (locus r)) (rows mt_filt))"
  from ks have keys: "keys = map row_key ?G"
    by (simp add: ld_prune_spec_def)
  have G_sub: "set ?G \<subseteq> set (rows mt_filt)"
    using greedy_prune_subset [of ?cf "sort_key (\<lambda>r. position (locus r)) (rows mt_filt)"]
    by simp
  from st' assms(5) have pruned: "pruned = filter_rows (\<lambda>r. row_key r \<in> set keys) mt_filt"
    by simp
  have in_G: "x \<in> set ?G" if "x \<in> set (rows pruned)" for x
  proof -
    from that pruned have x: "x \<in> set (rows mt_filt)" "row_key x \<in> set keys"
      by (auto simp: filter_rows_def)
    with keys obtain g where g: "g \<in> set ?G" "row_key x = row_key g"
      by auto
    with G_sub have "g \<in> set (rows mt_filt)" by blast
    from distinct_keys_member [OF dist x(1) this g(2)] g(1) show ?thesis
      by simp
  qed
  have "\<not> ?cf a b"
  proof (rule sorted_wrt_symmetric_pairs [where P = "\<lambda>a b. \<not> ?cf a b"])
    show "sorted_wrt (\<lambda>a b. \<not> ?cf a b) ?G"
      by (rule greedy_prune_no_conflict)
    show "\<forall>a b. \<not> ?cf a b \<longrightarrow> \<not> ?cf b a"
      using ld_conflict_sym [OF assms(1), of "8 / 10" 500000] by (intro allI impI notI) blast
    show "a \<in> set ?G" by (rule in_G [OF assms(6)])
    show "b \<in> set ?G" by (rule in_G [OF assms(7)])
    show "a \<noteq> b" by (rule assms(8))
  qed
  with assms(9,10) show ?thesis
    by (simp add: ld_conflict_def in_window_def)
qed

theorem retained_pairs_below_threshold_witness:
  "(\<forall>a b. ex_r2 a b = ex_r2 b a) \<and>
   read_matrix_table ex_ld_storage ''intersect.mt'' = Inr ex_ld_mt \<and>
   distinct (map row_key (rows ex_ld_mt)) \<and>
   ld_prune_filter (ld_prune_spec ex_r2) ''intersect.mt'' ''prune.mt'' False ex_ld_storage =
     Inr (ex_ld_storage(''prune.mt'' \<mapsto> MatrixTableFile
       (ex_mt\<lparr>rows := [ex_variant 1065 ''A'' ''G'' [Some (Call 0 1), Some (Call 0 0), None],
                       ex_variant 2000 ''C'' ''T'' [Some (Call 0 0), Some (Call 0 1), Some (Call 0 0)]]\<rparr>))) \<and>
   ex_r2 (ex_variant 1065 ''A'' ''G'' [Some (Call 0 1), Some (Call 0 0), None])
         (ex_variant 1065 ''G'' ''A'' [Some (Call 0 1), Some (Call 1 1), Some (Call 0 0)]) = 19 / 20 \<and>
   ex_r2 (ex_variant 1065 ''A'' ''G'' [Some (Call 0 1), Some (Call 0 0), None])
         (ex_variant 2000 ''C'' ''T'' [Some (Call 0 0), Some (Call 0 1), Some (Call 0 0)]) < 8 / 10"
proof -
  let ?a = "ex_variant 1065 ''A'' ''G'' [Some (Call 0 1), Some (Call 0 0), None]"
  let ?b = "ex_variant 2000 ''C'' ''T'' [Some (Call 0 0), Some (Call 0 1), Some (Call 0 0)]"
  let ?m = "ex_mt\<lparr>rows := [?a, ?b]\<rparr>"
  have sym: "\<forall>a b. ex_r2 a b = ex_r2 b a"
    by (auto simp: ex_r2_def)
  have rd: "read_matrix_table ex_ld_storage ''intersect.mt'' = Inr ex_ld_mt"
    by (simp add: read_matrix_table_def ex_ld_storage_def)
  have d: "distinct (map row_key (rows ex_ld_mt))"
    by (simp add: ex_ld_mt_def ex_mt_def row_key_def ex_variant_def ex_locus_def)
  have s: "(ex_ld_storage(''prune.mt'' \<mapsto> MatrixTableFile ?m)) ''prune.mt'' = Some (MatrixTableFile ?m)"
    by simp
  have ma: "?a \<in> set (rows ?m)" and mb: "?b \<in> set (rows ?m)"
    by simp_all
  have ne: "?a \<noteq> ?b" and c: "contig (locus ?a) = contig (locus ?b)"
    and w: "\<bar>position (locus ?a) - position (locus ?b)\<bar> \<le> 500000"
    by (simp_all add: ex_variant_def ex_locus_def)
  have e: "ex_r2 ?a (ex_variant 1065 ''G'' ''A'' [Some (Call 0 1), Some (Call 1 1), Some (Call 0 0)]) = 19 / 20"
    by (simp add: ex_r2_def ex_variant_def ex_locus_def)
  have lt: "ex_r2 ?a ?b < 8 / 10"
    by (rule retained_pairs_below_threshold [OF sym rd d ex_ld_prune_filter s ma mb ne c w])
  from sym rd d ex_ld_prune_filter e lt show ?thesis
    by (intro conjI)
qed


section \<open>Properties of the sample filter\<close>

lemma checkpoint_False_True_cases:
  assumes "checkpoint st (Inr m) p False True = Inr (st1, mf)"
  shows "(st p = None \<and> st1 = st(p \<mapsto> MatrixTableFile m) \<and> mf = m) \<or>
         (st p = Some (MatrixTableFile mf) \<and> st1 = st)"
  using assms
  by (auto simp: checkpoint_def write_matrix_table_def read_matrix_table_def
      split: if_splits option.splits stored_file.splits)

lemma ref_filtering_Inr:
  assumes "ref_filtering ref_mt pass_mt unrel outliers pass_unrel_mt overwrite st = Inr st'"
  obtains mt st1 mt_filt mt_unrel t pca_outliers where
    "read_matrix_table st ref_mt = Inr mt"
    "checkpoint st (Inr (qc_pass_samples mt)) pass_mt False True = Inr (st1, mt_filt)"
    "read_matrix_table st1 unrel = Inr mt_unrel"
    "import_table st1 outliers = Inr t"
    "key_by_s t = Inr pca_outliers"
    "st' = st1(pass_unrel_mt \<mapsto> MatrixTableFile (unrelated_non_outliers mt_unrel pca_outliers mt_filt))"
  using assms
  by (auto simp: ref_filtering_def split: sum.splits if_splits prod.splits dest!: write_file_Inr)

lemma read_matrix_table_upd:
  "p \<noteq> q \<Longrightarrow> read_matrix_table (st(p \<mapsto> f)) q = read_matrix_table st q"
  by (simp add: read_matrix_table_def)

lemma import_table_upd:
  "p \<noteq> q \<Longrightarrow> import_table (st(p \<mapsto> f)) q = import_table st q"
  by (simp add: import_table_def)

lemma cols_filter_cols: "cols (filter_cols P mt) = filter P (cols mt)"
  by (simp add: filter_cols_def)

lemma cols_filter_rows: "cols (filter_rows P mt) = cols mt"
  by (simp add: filter_rows_def)

lemma cols_unrelated_non_outliers:
  "cols (unrelated_non_outliers mt_unrel pca_outliers mt_filt) =
     filter (\<lambda>c. Some (Str (col_s c)) \<notin> set pca_outliers)
       (filter (\<lambda>c. col_s c \<in> set (map col_s (cols mt_unrel))) (cols mt_filt))"
  by (simp add: unrelated_non_outliers_def cols_filter_cols cols_filter_rows)

lemma cols_qc_pass_samples:
  "cols (qc_pass_samples mt) = filter (qc_pass (bad_sample_filters mt)) (cols mt)"
  by (simp add: qc_pass_samples_def cols_filter_cols)

lemma qc_pass_empty_difference:
  assumes "qc_pass bad c"
  shows "\<exists>fs. qc_metrics_filters c = Some fs \<and> set fs - set bad = {}"
proof (cases "qc_metrics_filters c")
  case None
  with assms show ?thesis by (simp add: qc_pass_def)
next
  case (Some fs)
  with assms have "filter (\<lambda>x. x \<notin> set bad) fs = []"
    by (simp add: qc_pass_def)
  then have "set fs - set bad = {}"
    by (simp only: filter_empty_conv) blast
  with Some show ?thesis by simp
qed

text \<open>
  C2, as the code has it. Every sample of the matrix that the stage writes is a column of
  the unrelated matrix and has no line in the outlier table. When nothing is stored at
  \<open>pass_mt\<close>, so that the stage filters the reference matrix itself, the sample's
  \<open>qc_metrics_filters\<close> minus \<open>bad_sample_filters\<close> is empty as well. When a matrix
  is stored at \<open>pass_mt\<close>, line 20 reads it back in place of the filtered reference,
  and the samples written are samples of that stored matrix.
\<close>

theorem retained_samples_pass_qc:
  assumes "read_matrix_table st ref_mt = Inr mt"
    and "read_matrix_table st unrel = Inr mt_unrel"
    and "import_table st outliers = Inr t"
    and "key_by_s t = Inr pca_outliers"
    and "pass_mt \<noteq> unrel" and "pass_mt \<noteq> outliers"
    and "ref_filtering ref_mt pass_mt unrel outliers pass_unrel_mt overwrite st = Inr st'"
    and "st' pass_unrel_mt = Some (MatrixTableFile passed)"
    and "c \<in> set (cols passed)"
  shows "col_s c \<in> set (map col_s (cols mt_unrel)) \<and>
         Some (Str (col_s c)) \<notin> set pca_outliers \<and>
         (st pass_mt = None \<longrightarrow>
            (\<exists>fs. qc_metrics_filters c = Some fs \<and> set fs - set (bad_sample_filters mt) = {})) \<and>
         (\<forall>m. st pass_mt = Some (MatrixTableFile m) \<longrightarrow> c \<in> set (cols m))"
proof -
  from assms(7) obtain mt' st1 mt_filt mt_unrel' t' ks where
    rd: "read_matrix_table st ref_mt = Inr mt'" and
    ck: "checkpoint st (Inr (qc_pass_samples mt')) pass_mt False True = Inr (st1, mt_filt)" and
    ru: "read_matrix_table st1 unrel = Inr mt_unrel'" and
    it: "import_table st1 outliers = Inr t'" and
    kb: "key_by_s t' = Inr ks" and
    st': "st' = st1(pass_unrel_mt \<mapsto> MatrixTableFile (unrelated_non_outliers mt_unrel' ks mt_filt))"
    by (rule ref_filtering_Inr)
  from rd assms(1) have mt: "mt' = mt" by simp
  from checkpoint_False_True_cases [OF ck]
  have st1: "st1 = st \<or> st1 = st(pass_mt \<mapsto> MatrixTableFile (qc_pass_samples mt'))"
    by blast
  from st1 assms(5) have "read_matrix_table st1 unrel = read_matrix_table st unrel"
    by (auto simp: read_matrix_table_upd)
  with ru assms(2) have mu: "mt_unrel' = mt_unrel" by simp
  from st1 assms(6) have "import_table st1 outliers = import_table st outliers"
    by (auto simp: import_table_upd)
  with it assms(3) have "t' = t" by simp
  with kb assms(4) have ks: "ks = pca_outliers" by simp
  from st' assms(8) have "passed = unrelated_non_outliers mt_unrel' ks mt_filt"
    by simp
  with assms(9) mu ks have c:
    "Some (Str (col_s c)) \<notin> set pca_outliers"
    "col_s c \<in> set (map col_s (cols mt_unrel))"
    "c \<in> set (cols mt_filt)"
    by (simp_all add: cols_unrelated_non_outliers)
  have fresh: "\<exists>fs. qc_metrics_filters c = Some fs \<and> set fs - set (bad_sample_filters mt) = {}"
    if "st pass_mt = None"
  proof -
    from checkpoint_False_True_cases [OF ck] that have "mt_filt = qc_pass_samples mt'"
      by auto
    with c(3) mt have "qc_pass (bad_sample_filters mt) c"
      by (simp add: cols_qc_pass_samples)
    then show ?thesis by (rule qc_pass_empty_difference)
  qed
  have reuse: "c \<in> set (cols m)" if "st pass_mt = Some (MatrixTableFile m)" for m
  proof -
    from checkpoint_False_True_cases [OF ck] that have "mt_filt = m"
      by auto
    with c(3) show ?thesis by simp
  qed
  from c(1,2) fresh reuse show ?thesis
    by blast
qed


lemma ref_filtering_reuse:
  assumes "read_matrix_table st ref_mt = Inr mt"
    and "''qc_metrics_filters'' \<in> set (sample_filters mt)"
    and "bad_sample_filters mt \<noteq> []"
    and "st pass_mt = Some (MatrixTableFile m)"
    and "read_matrix_table st unrel = Inr mt_unrel"
    and "import_table st outliers = Inr t"
    and "key_by_s t = Inr pca_outliers"
    and "overwrite \<or> st pass_unrel_mt = None"
  shows "ref_filtering ref_mt pass_mt unrel outliers pass_unrel_mt overwrite st =
     Inr (st(pass_unrel_mt \<mapsto> MatrixTableFile (unrelated_non_outliers mt_unrel pca_outliers m)))"
  using assms by (auto simp: ref_filtering_def checkpoint_reuses write_file_def)

lemma ref_filtering_fresh:
  assumes "read_matrix_table st ref_mt = Inr mt"
    and "''qc_metrics_filters'' \<in> set (sample_filters mt)"
    and "bad_sample_filters mt \<noteq> []"
    and "st pass_mt = None"
    and "pass_mt \<noteq> unrel" and "pass_mt \<noteq> outliers" and "pass_mt \<noteq> pass_unrel_mt"
    and "read_matrix_table st unrel = Inr mt_unrel"
    and "import_table st outliers = Inr t"
    and "key_by_s t = Inr pca_outliers"
    and "overwrite \<or> st pass_unrel_mt = None"
  shows "ref_filtering ref_mt pass_mt unrel outliers pass_unrel_mt overwrite st =
     Inr (st(pass_mt \<mapsto> MatrixTableFile (qc_pass_samples mt),
             pass_unrel_mt \<mapsto> MatrixTableFile
               (unrelated_non_outliers mt_unrel pca_outliers (qc_pass_samples mt))))"
  using assms
  by (auto simp: ref_filtering_def checkpoint_fresh write_file_def read_matrix_table_upd
      import_table_upd)

lemma ex_schema: "''qc_metrics_filters'' \<in> set (sample_filters ex_mt)"
  by (simp add: ex_mt_def)

lemma ex_bad_sample_filters: "bad_sample_filters ex_mt = [''n_snp_residual'']"
  by (simp add: bad_sample_filters_def ex_mt_def startswith_def)

lemma ex_bad_nonempty: "bad_sample_filters ex_mt \<noteq> []"
  by (simp add: ex_bad_sample_filters)

lemma ex_read_unrel: "read_matrix_table ex_storage ''unrel.mt'' = Inr (ex_mt\<lparr>rows := []\<rparr>)"
  by (simp add: read_matrix_table_def ex_storage_def)

lemma ex_import_outliers: "import_table ex_storage ''outliers.txt'' = Inr ([''s''], [[Str ''S3'']])"
  by (simp add: import_table_def ex_storage_def)

lemma ex_key_by_s: "key_by_s ([''s''], [[Str ''S3'']]) = Inr [Some (Str ''S3'')]"
  by (simp add: key_by_s_def)

lemma ex_cols_fresh:
  "cols (unrelated_non_outliers (ex_mt\<lparr>rows := []\<rparr>) [Some (Str ''S3'')] (qc_pass_samples ex_mt)) =
     [ex_sample ''S2'' [''n_snp_residual'']]"
  by (simp add: cols_unrelated_non_outliers cols_qc_pass_samples ex_bad_sample_filters)
     (simp add: ex_mt_def ex_sample_def qc_pass_def)

lemma ex_cols_stale:
  "cols (unrelated_non_outliers (ex_mt\<lparr>rows := []\<rparr>) [Some (Str ''S3'')] ex_mt) =
     [ex_sample ''S1'' [''sex_aneuploidy''], ex_sample ''S2'' [''n_snp_residual'']]"
  by (simp add: cols_unrelated_non_outliers)
     (simp add: ex_mt_def ex_sample_def)


lemma ex_ref_filtering_fresh:
  "ref_filtering ''ref.mt'' ''pass.mt'' ''unrel.mt'' ''outliers.txt'' ''out.mt'' False ex_storage =
     Inr (ex_storage(''pass.mt'' \<mapsto> MatrixTableFile (qc_pass_samples ex_mt),
            ''out.mt'' \<mapsto> MatrixTableFile
               (unrelated_non_outliers (ex_mt\<lparr>rows := []\<rparr>) [Some (Str ''S3'')]
                  (qc_pass_samples ex_mt))))"
proof (rule ref_filtering_fresh [OF ex_read_ref ex_schema ex_bad_nonempty _ _ _ _ ex_read_unrel
      ex_import_outliers ex_key_by_s])
  show "ex_storage ''pass.mt'' = None" by (simp add: ex_storage_def)
  show "''pass.mt'' \<noteq> ''unrel.mt''" by simp
  show "''pass.mt'' \<noteq> ''outliers.txt''" by simp
  show "''pass.mt'' \<noteq> ''out.mt''" by simp
  show "False \<or> ex_storage ''out.mt'' = None" by (simp add: ex_storage_def)
qed

theorem retained_samples_pass_qc_witness:
  "read_matrix_table ex_storage ''ref.mt'' = Inr ex_mt \<and>
   read_matrix_table ex_storage ''unrel.mt'' = Inr (ex_mt\<lparr>rows := []\<rparr>) \<and>
   import_table ex_storage ''outliers.txt'' = Inr ([''s''], [[Str ''S3'']]) \<and>
   key_by_s ([''s''], [[Str ''S3'']]) = Inr [Some (Str ''S3'')] \<and>
   ex_storage ''pass.mt'' = None \<and>
   ref_filtering ''ref.mt'' ''pass.mt'' ''unrel.mt'' ''outliers.txt'' ''out.mt'' False ex_storage =
     Inr (ex_storage(''pass.mt'' \<mapsto> MatrixTableFile (qc_pass_samples ex_mt),
            ''out.mt'' \<mapsto> MatrixTableFile
               (unrelated_non_outliers (ex_mt\<lparr>rows := []\<rparr>) [Some (Str ''S3'')]
                  (qc_pass_samples ex_mt)))) \<and>
   cols (unrelated_non_outliers (ex_mt\<lparr>rows := []\<rparr>) [Some (Str ''S3'')] (qc_pass_samples ex_mt)) =
     [ex_sample ''S2'' [''n_snp_residual'']] \<and>
   ''S2'' \<in> set (map col_s (cols (ex_mt\<lparr>rows := []\<rparr>))) \<and>
   Some (Str ''S2'') \<notin> set [Some (Str ''S3'')] \<and>
   set [''n_snp_residual''] - set (bad_sample_filters ex_mt) = {}"
proof -
  let ?out = "unrelated_non_outliers (ex_mt\<lparr>rows := []\<rparr>) [Some (Str ''S3'')] (qc_pass_samples ex_mt)"
  let ?st' = "ex_storage(''pass.mt'' \<mapsto> MatrixTableFile (qc_pass_samples ex_mt),
      ''out.mt'' \<mapsto> MatrixTableFile ?out)"
  have n: "ex_storage ''pass.mt'' = None"
    by (simp add: ex_storage_def)
  have o: "?st' ''out.mt'' = Some (MatrixTableFile ?out)"
    by simp
  have c: "ex_sample ''S2'' [''n_snp_residual''] \<in> set (cols ?out)"
    by (simp add: ex_cols_fresh)
  have p: "''pass.mt'' \<noteq> ''unrel.mt''" "''pass.mt'' \<noteq> ''outliers.txt''"
    by simp_all
  from retained_samples_pass_qc [OF ex_read_ref ex_read_unrel ex_import_outliers ex_key_by_s
      p ex_ref_filtering_fresh o c] n
  have "col_s (ex_sample ''S2'' [''n_snp_residual'']) \<in> set (map col_s (cols (ex_mt\<lparr>rows := []\<rparr>)))"
    and "Some (Str (col_s (ex_sample ''S2'' [''n_snp_residual'']))) \<notin> set [Some (Str ''S3'')]"
    and "\<exists>fs. qc_metrics_filters (ex_sample ''S2'' [''n_snp_residual'']) = Some fs \<and>
          set fs - set (bad_sample_filters ex_mt) = {}"
    by blast+
  then have "''S2'' \<in> set (map col_s (cols (ex_mt\<lparr>rows := []\<rparr>)))"
    and "Some (Str ''S2'') \<notin> set [Some (Str ''S3'')]"
    and "set [''n_snp_residual''] - set (bad_sample_filters ex_mt) = {}"
    by (simp_all add: ex_sample_def)
  with ex_read_ref ex_read_unrel ex_import_outliers ex_key_by_s n ex_ref_filtering_fresh
    ex_cols_fresh
  show ?thesis
    by (intro conjI)
qed

text \<open>
  C2 as stated fails when a matrix is already stored at \<open>pass_mt\<close>: here the path
  holds the unfiltered matrix, the flag is set, and the stage writes sample S1, whose
  failure \<^verbatim>\<open>sex_aneuploidy\<close> is not in \<open>bad_sample_filters\<close>.
\<close>

theorem stale_checkpoint_keeps_failing_sample:
  "ref_filtering ''ref.mt'' ''pass.mt'' ''unrel.mt'' ''outliers.txt'' ''out.mt'' True
     (ex_storage(''pass.mt'' \<mapsto> MatrixTableFile ex_mt)) =
     Inr (ex_storage(''pass.mt'' \<mapsto> MatrixTableFile ex_mt,
            ''out.mt'' \<mapsto> MatrixTableFile
               (unrelated_non_outliers (ex_mt\<lparr>rows := []\<rparr>) [Some (Str ''S3'')] ex_mt))) \<and>
   cols (unrelated_non_outliers (ex_mt\<lparr>rows := []\<rparr>) [Some (Str ''S3'')] ex_mt) =
     [ex_sample ''S1'' [''sex_aneuploidy''], ex_sample ''S2'' [''n_snp_residual'']] \<and>
   qc_metrics_filters (ex_sample ''S1'' [''sex_aneuploidy'']) = Some [''sex_aneuploidy''] \<and>
   set [''sex_aneuploidy''] - set (bad_sample_filters ex_mt) = {''sex_aneuploidy''} \<and>
   \<not> (\<forall>c \<in> set (cols (unrelated_non_outliers (ex_mt\<lparr>rows := []\<rparr>) [Some (Str ''S3'')] ex_mt)).
        \<exists>fs. qc_metrics_filters c = Some fs \<and> set fs - set (bad_sample_filters ex_mt) = {})"
proof -
  let ?st = "ex_storage(''pass.mt'' \<mapsto> MatrixTableFile ex_mt)"
  have "ref_filtering ''ref.mt'' ''pass.mt'' ''unrel.mt'' ''outliers.txt'' ''out.mt'' True ?st =
      Inr (?st(''out.mt'' \<mapsto> MatrixTableFile
        (unrelated_non_outliers (ex_mt\<lparr>rows := []\<rparr>) [Some (Str ''S3'')] ex_mt)))"
  proof (rule ref_filtering_reuse [OF _ ex_schema ex_bad_nonempty _ _ _ ex_key_by_s])
    show "read_matrix_table ?st ''ref.mt'' = Inr ex_mt"
      by (simp add: read_matrix_table_def ex_storage_def)
    show "?st ''pass.mt'' = Some (MatrixTableFile ex_mt)"
      by simp
    show "read_matrix_table ?st ''unrel.mt'' = Inr (ex_mt\<lparr>rows := []\<rparr>)"
      by (simp add: read_matrix_table_def ex_storage_def)
    show "import_table ?st ''outliers.txt'' = Inr ([''s''], [[Str ''S3'']])"
      by (simp add: import_table_def ex_storage_def)
    show "True \<or> ?st ''out.mt'' = None"
      by simp
  qed
  moreover have "qc_metrics_filters (ex_sample ''S1'' [''sex_aneuploidy'']) = Some [''sex_aneuploidy'']"
    by (simp add: ex_sample_def)
  moreover have d: "set [''sex_aneuploidy''] - set (bad_sample_filters ex_mt) = {''sex_aneuploidy''}"
    by (simp add: ex_bad_sample_filters)
  moreover have "\<not> (\<forall>c \<in> set (cols (unrelated_non_outliers (ex_mt\<lparr>rows := []\<rparr>) [Some (Str ''S3'')] ex_mt)).
        \<exists>fs. qc_metrics_filters c = Some fs \<and> set fs - set (bad_sample_filters ex_mt) = {})"
    by (simp add: ex_cols_stale ex_bad_sample_filters) (simp add: ex_sample_def)
  ultimately show ?thesis
    using ex_cols_stale by (intro conjI)
qed


section \<open>Properties of the PCA stage\<close>

lemma PC_names_eq:
  "PC_names = [''PC1'', ''PC2'', ''PC3'', ''PC4'', ''PC5'', ''PC6'', ''PC7'', ''PC8'', ''PC9'', ''PC10'',
     ''PC11'', ''PC12'', ''PC13'', ''PC14'', ''PC15'', ''PC16'', ''PC17'', ''PC18'', ''PC19'', ''PC20'']"
  by code_simp

lemma PC_cells_eq:
  assumes "length v = 20"
  shows "PC_cells v = map Float v"
proof (rule nth_equalityI)
  show "length (PC_cells v) = length (map Float v)"
    using assms by (simp add: PC_cells_def)
next
  fix i assume "i < length (PC_cells v)"
  then have i: "i < 20" by (simp add: PC_cells_def)
  then have "PC_cells v ! i = Float (v ! i)"
    unfolding PC_cells_def by (simp add: nth_map_upt del: upt_Suc)
  with i assms show "PC_cells v ! i = map Float v ! i"
    by simp
qed

lemma length_PC_cells: "length (PC_cells v) = 20"
  by (simp add: PC_cells_def)

lemma transmute_scores_map:
  "transmute_scores (map (\<lambda>x. \<lparr>scores_s = fst x, scores = snd x\<rparr>) sc) =
     (if \<exists>x \<in> set sc. length (snd x) < 20 then Inl IndexOutOfBounds
      else Inr (map (\<lambda>x. Str (fst x) # PC_cells (snd x)) sc))"
  by (simp add: transmute_scores_def comp_def)

lemma select_loadings_annotate:
  "select_loadings (annotate_pca_af mt ld) =
     (if \<exists>x \<in> set ld. length (snd (fst x)) < 2 \<or> length (snd x) < 20 then Inl IndexOutOfBounds
      else Inr (map (\<lambda>x. Str (variant_str (fst (fst x)) (snd (fst x)))
                          # Str (snd (fst x) ! 1) # PC_cells (snd x)) ld))"
  by (simp add: select_loadings_def annotate_pca_af_def comp_def del: One_nat_def)

lemma select_afreq_annotate:
  "select_afreq (annotate_pca_af mt ld) =
     (if \<exists>x \<in> set ld. length (snd (fst x)) < 2 then Inl IndexOutOfBounds
      else Inr (map (\<lambda>x. [Str (variant_str (fst (fst x)) (snd (fst x))),
                           Str (snd (fst x) ! 0), Str (snd (fst x) ! 1),
                           (case lookup_pca_af mt (fst x) of None \<Rightarrow> Missing | Some f \<Rightarrow> Float f)]) ld))"
  by (simp add: select_afreq_def annotate_pca_af_def comp_def del: One_nat_def)


lemma read_scores_written: "read_scores (st(p \<mapsto> ScoresTableFile t)) p = Inr t"
  by (simp add: read_scores_def)

lemma read_loadings_written: "read_loadings (st(p \<mapsto> LoadingsTableFile t)) p = Inr t"
  by (simp add: read_loadings_def)

lemma run_pca_eq:
  assumes "read_matrix_table st prune_out = Inr mt"
    and "hwe_normalized_pca mt 20 = Inr (pca_evals, pca_scores, pca_loadings)"
  shows "run_pca hwe_normalized_pca prune_out pca_prefix overwrite st =
     (if st (pca_prefix @ ''scores.ht'') \<noteq> None \<and> \<not> overwrite
      then Inl (FileExists (pca_prefix @ ''scores.ht''))
      else if \<exists>x \<in> set pca_scores. length (snd x) < 20 then Inl IndexOutOfBounds
      else if st (pca_prefix @ ''loadings.ht'') \<noteq> None \<and> \<not> overwrite
      then Inl (FileExists (pca_prefix @ ''loadings.ht''))
      else if \<exists>x \<in> set pca_loadings. length (snd (fst x)) < 2 \<or> length (snd x) < 20
      then Inl IndexOutOfBounds
      else Inr (st(pca_prefix @ ''scores.ht'' \<mapsto>
                     ScoresTableFile (map (\<lambda>x. \<lparr>scores_s = fst x, scores = snd x\<rparr>) pca_scores),
                   pca_prefix @ ''scores.txt.bgz'' \<mapsto>
                     TextFile (''s'' # PC_names)
                       (map (\<lambda>x. Str (fst x) # PC_cells (snd x)) pca_scores),
                   pca_prefix @ ''loadings.txt.bgz'' \<mapsto>
                     TextFile [''locus'', ''alleles'', ''loadings'', ''pca_af'']
                       (map loadings_cells (annotate_pca_af mt pca_loadings)),
                   pca_prefix @ ''loadings.ht'' \<mapsto>
                     LoadingsTableFile (annotate_pca_af mt pca_loadings),
                   pca_prefix @ ''loadings.plink.tsv'' \<mapsto>
                     TextFile (''ID'' # ''ALT'' # PC_names)
                       (map (\<lambda>x. Str (variant_str (fst (fst x)) (snd (fst x)))
                                  # Str (snd (fst x) ! 1) # PC_cells (snd x)) pca_loadings),
                   pca_prefix @ ''loadings.plink.afreq'' \<mapsto>
                     TextFile [''#ID'', ''REF'', ''ALT'', ''ALT1_FREQ'']
                       (map (\<lambda>x. [Str (variant_str (fst (fst x)) (snd (fst x))),
                                   Str (snd (fst x) ! 0), Str (snd (fst x) ! 1),
                                   (case lookup_pca_af mt (fst x) of
                                      None \<Rightarrow> Missing | Some f \<Rightarrow> Float f)]) pca_loadings))))"
proof -
  have afreq_ok: "\<not> (\<exists>x \<in> set pca_loadings. length (snd (fst x)) < 2)"
    if "\<not> (\<exists>x \<in> set pca_loadings. length (snd (fst x)) < 2 \<or> length (snd x) < 20)"
    using that by blast
  show ?thesis
    unfolding run_pca_def
    by (simp only: assms sum.case prod.case write_file_def export_table_def)
       (auto simp: read_scores_written read_loadings_written transmute_scores_map
          select_loadings_annotate select_afreq_annotate
          simp del: One_nat_def
          split: sum.splits)
qed


text \<open>
  C7, as the code has it. The stage has no check of its own: it hands the matrix to the
  engine with \<open>k = 20\<close>, and an error of the engine is the error of the stage. When
  the engine returns, whatever the number of samples and the variance of the variants,
  the stage succeeds as soon as every score and loading vector has twenty entries, every
  variant two alleles, and the table paths are free or the flag is set.
\<close>

theorem pca_stage_has_no_check_of_its_own:
  "(read_matrix_table st prune_out = Inr mt \<and> hwe_normalized_pca mt 20 = Inl e \<longrightarrow>
      run_pca hwe_normalized_pca prune_out pca_prefix overwrite st = Inl e) \<and>
   (read_matrix_table st prune_out = Inr mt \<and>
    hwe_normalized_pca mt 20 = Inr (pca_evals, pca_scores, pca_loadings) \<and>
    (\<forall>x \<in> set pca_scores. 20 \<le> length (snd x)) \<and>
    (\<forall>x \<in> set pca_loadings. 2 \<le> length (snd (fst x)) \<and> 20 \<le> length (snd x)) \<and>
    (overwrite \<or>
       st (pca_prefix @ ''scores.ht'') = None \<and> st (pca_prefix @ ''loadings.ht'') = None) \<longrightarrow>
      (\<exists>st'. run_pca hwe_normalized_pca prune_out pca_prefix overwrite st = Inr st'))"
proof (intro conjI impI)
  assume "read_matrix_table st prune_out = Inr mt \<and> hwe_normalized_pca mt 20 = Inl e"
  then show "run_pca hwe_normalized_pca prune_out pca_prefix overwrite st = Inl e"
    by (simp add: run_pca_def)
next
  assume h: "read_matrix_table st prune_out = Inr mt \<and>
    hwe_normalized_pca mt 20 = Inr (pca_evals, pca_scores, pca_loadings) \<and>
    (\<forall>x \<in> set pca_scores. 20 \<le> length (snd x)) \<and>
    (\<forall>x \<in> set pca_loadings. 2 \<le> length (snd (fst x)) \<and> 20 \<le> length (snd x)) \<and>
    (overwrite \<or>
       st (pca_prefix @ ''scores.ht'') = None \<and> st (pca_prefix @ ''loadings.ht'') = None)"
  then have r: "read_matrix_table st prune_out = Inr mt"
    and g: "hwe_normalized_pca mt 20 = Inr (pca_evals, pca_scores, pca_loadings)"
    by blast+
  from h have a: "\<not> (st (pca_prefix @ ''scores.ht'') \<noteq> None \<and> \<not> overwrite)"
    and b: "\<not> (\<exists>x \<in> set pca_scores. length (snd x) < 20)"
    and c: "\<not> (st (pca_prefix @ ''loadings.ht'') \<noteq> None \<and> \<not> overwrite)"
    and d: "\<not> (\<exists>x \<in> set pca_loadings. length (snd (fst x)) < 2 \<or> length (snd x) < 20)"
    by (auto simp: not_less)
  show "\<exists>st'. run_pca hwe_normalized_pca prune_out pca_prefix overwrite st = Inr st'"
    unfolding run_pca_eq [where hwe_normalized_pca = hwe_normalized_pca, OF r g]
    by (simp only: a b c d if_False) blast
qed


lemma ex_pca_read: "read_matrix_table ex_pca_storage ''prune.mt'' = Inr ex_pca_mt"
  by (simp add: read_matrix_table_def ex_pca_storage_def)

lemma ex_pca_cols: "length (cols ex_pca_mt) = 20"
  by (simp add: ex_pca_mt_def)

lemma ex_engine_pca:
  "ex_engine ex_pca_mt 20 =
     Inr (replicate 20 1, map (\<lambda>c. (col_s c, replicate 20 0)) (cols ex_pca_mt),
          map (\<lambda>r. (row_key r, replicate 20 0)) (rows ex_pca_mt))"
  by (simp add: ex_engine_def ex_pca_cols)

lemma ex_engine_few_samples:
  "ex_engine ex_mt 20 = Inl (EngineError ''k exceeds the number of samples'')"
  by (simp add: ex_engine_def ex_mt_def)

lemma ex_engine_contract:
  "\<forall>m k ev sc ld. ex_engine m k = Inr (ev, sc, ld) \<longrightarrow>
     length ev = k \<and> (\<forall>x \<in> set sc. length (snd x) = k) \<and> (\<forall>x \<in> set ld. length (snd x) = k)"
  by (auto simp: ex_engine_def split: if_splits)

lemma ex_pca_vectors:
  "\<forall>x \<in> set (map (\<lambda>c. (col_s c, replicate 20 (0::real))) (cols ex_pca_mt)). 20 \<le> length (snd x)"
  "\<forall>x \<in> set (map (\<lambda>r. (row_key r, replicate 20 (0::real))) (rows ex_pca_mt)).
     2 \<le> length (snd (fst x)) \<and> 20 \<le> length (snd x)"
  by (simp_all add: ex_pca_mt_def row_key_def ex_variant_def)

lemma ex_pca_paths:
  "ex_pca_storage (''pca_'' @ ''scores.ht'') = None"
  "ex_pca_storage (''pca_'' @ ''loadings.ht'') = None"
  by (simp_all add: ex_pca_storage_def)

theorem pca_stage_has_no_check_of_its_own_witness:
  "read_matrix_table ex_storage ''ref.mt'' = Inr ex_mt \<and>
   ex_engine ex_mt 20 = Inl (EngineError ''k exceeds the number of samples'') \<and>
   run_pca ex_engine ''ref.mt'' ''pca_'' False ex_storage =
     Inl (EngineError ''k exceeds the number of samples'') \<and>
   read_matrix_table ex_pca_storage ''prune.mt'' = Inr ex_pca_mt \<and>
   ex_engine ex_pca_mt 20 =
     Inr (replicate 20 1, map (\<lambda>c. (col_s c, replicate 20 0)) (cols ex_pca_mt),
          map (\<lambda>r. (row_key r, replicate 20 0)) (rows ex_pca_mt)) \<and>
   ex_pca_storage (''pca_'' @ ''scores.ht'') = None \<and>
   ex_pca_storage (''pca_'' @ ''loadings.ht'') = None \<and>
   (\<exists>st'. run_pca ex_engine ''prune.mt'' ''pca_'' False ex_pca_storage = Inr st')"
proof -
  from pca_stage_has_no_check_of_its_own
    [of ex_storage "''ref.mt''" ex_mt ex_engine "EngineError ''k exceeds the number of samples''"
      "''pca_''" False]
    ex_read_ref ex_engine_few_samples
  have a: "run_pca ex_engine ''ref.mt'' ''pca_'' False ex_storage =
     Inl (EngineError ''k exceeds the number of samples'')"
    by blast
  from pca_stage_has_no_check_of_its_own
    [of ex_pca_storage "''prune.mt''" ex_pca_mt ex_engine _ "''pca_''" False "replicate 20 1"
      "map (\<lambda>c. (col_s c, replicate 20 0)) (cols ex_pca_mt)"
      "map (\<lambda>r. (row_key r, replicate 20 0)) (rows ex_pca_mt)"]
    ex_pca_read ex_engine_pca ex_pca_vectors ex_pca_paths
  have b: "\<exists>st'. run_pca ex_engine ''prune.mt'' ''pca_'' False ex_pca_storage = Inr st'"
    by blast
  from ex_read_ref ex_engine_few_samples a ex_pca_read ex_engine_pca ex_pca_paths b
  show ?thesis
    by (intro conjI)
qed

lemma ex_run_pca_succeeds:
  "\<not> isl (run_pca ex_engine ''prune.mt'' ''pca_'' False ex_pca_storage)"
proof -
  have a: "\<not> (\<exists>x \<in> set (map (\<lambda>c. (col_s c, replicate 20 (0::real))) (cols ex_pca_mt)).
              length (snd x) < 20)"
    using ex_pca_vectors(1) by (simp only: not_less [symmetric]) blast
  have b: "\<not> (\<exists>x \<in> set (map (\<lambda>r. (row_key r, replicate 20 (0::real))) (rows ex_pca_mt)).
              length (snd (fst x)) < 2 \<or> length (snd x) < 20)"
    using ex_pca_vectors(2) by (simp only: not_less [symmetric]) blast
  show ?thesis
    unfolding run_pca_eq [where hwe_normalized_pca = ex_engine, OF ex_pca_read ex_engine_pca]
    by (simp only: a b ex_pca_paths if_False simp_thms) simp
qed

text \<open>
  C7 as stated fails on a matrix of twenty samples whose only variant has the same dosage
  in every sample: the stage succeeds. On the three-sample matrix the error is the one
  the engine returns.
\<close>

theorem constant_dosage_passes_the_pca_stage:
  "read_matrix_table ex_pca_storage ''prune.mt'' = Inr ex_pca_mt \<and>
   length (cols ex_pca_mt) = 20 \<and>
   rows ex_pca_mt = [ex_variant 1065 ''A'' ''G'' (replicate 20 (Some (Call 0 1)))] \<and>
   \<not> isl (run_pca ex_engine ''prune.mt'' ''pca_'' False ex_pca_storage) \<and>
   run_pca ex_engine ''ref.mt'' ''pca_'' False ex_storage =
     Inl (EngineError ''k exceeds the number of samples'')"
proof -
  have "run_pca ex_engine ''ref.mt'' ''pca_'' False ex_storage =
     Inl (EngineError ''k exceeds the number of samples'')"
    by (simp add: run_pca_def ex_read_ref ex_engine_few_samples)
  moreover have "rows ex_pca_mt = [ex_variant 1065 ''A'' ''G'' (replicate 20 (Some (Call 0 1)))]"
    by (simp add: ex_pca_mt_def)
  ultimately show ?thesis
    using ex_pca_read ex_pca_cols ex_run_pca_succeeds by (intro conjI)
qed

lemma PC_cells_take:
  assumes "20 \<le> length v"
  shows "PC_cells v = map Float (take 20 v)"
proof (rule nth_equalityI)
  show "length (PC_cells v) = length (map Float (take 20 v))"
    using assms by (simp add: PC_cells_def)
next
  fix i assume "i < length (PC_cells v)"
  then have i: "i < 20" by (simp add: PC_cells_def)
  then have "PC_cells v ! i = Float (v ! i)"
    unfolding PC_cells_def by (simp add: nth_map_upt del: upt_Suc)
  with i assms show "PC_cells v ! i = map Float (take 20 v) ! i"
    by simp
qed

lemma run_pca_Inr:
  assumes "read_matrix_table st prune_out = Inr mt"
    and "hwe_normalized_pca mt 20 = Inr (pca_evals, pca_scores, pca_loadings)"
    and "run_pca hwe_normalized_pca prune_out pca_prefix overwrite st = Inr st'"
  shows "\<forall>x \<in> set pca_scores. 20 \<le> length (snd x)"
    and "\<forall>x \<in> set pca_loadings. 20 \<le> length (snd x) \<and> 2 \<le> length (snd (fst x))"
    and "st' = st(pca_prefix @ ''scores.ht'' \<mapsto>
                     ScoresTableFile (map (\<lambda>x. \<lparr>scores_s = fst x, scores = snd x\<rparr>) pca_scores),
                   pca_prefix @ ''scores.txt.bgz'' \<mapsto>
                     TextFile (''s'' # PC_names)
                       (map (\<lambda>x. Str (fst x) # PC_cells (snd x)) pca_scores),
                   pca_prefix @ ''loadings.txt.bgz'' \<mapsto>
                     TextFile [''locus'', ''alleles'', ''loadings'', ''pca_af'']
                       (map loadings_cells (annotate_pca_af mt pca_loadings)),
                   pca_prefix @ ''loadings.ht'' \<mapsto>
                     LoadingsTableFile (annotate_pca_af mt pca_loadings),
                   pca_prefix @ ''loadings.plink.tsv'' \<mapsto>
                     TextFile (''ID'' # ''ALT'' # PC_names)
                       (map (\<lambda>x. Str (variant_str (fst (fst x)) (snd (fst x)))
                                  # Str (snd (fst x) ! 1) # PC_cells (snd x)) pca_loadings),
                   pca_prefix @ ''loadings.plink.afreq'' \<mapsto>
                     TextFile [''#ID'', ''REF'', ''ALT'', ''ALT1_FREQ'']
                       (map (\<lambda>x. [Str (variant_str (fst (fst x)) (snd (fst x))),
                                   Str (snd (fst x) ! 0), Str (snd (fst x) ! 1),
                                   (case lookup_pca_af mt (fst x) of
                                      None \<Rightarrow> Missing | Some f \<Rightarrow> Float f)]) pca_loadings))"
proof -
  note e = assms(3) [unfolded run_pca_eq [where hwe_normalized_pca = hwe_normalized_pca,
        OF assms(1,2)]]
  from e show "\<forall>x \<in> set pca_scores. 20 \<le> length (snd x)"
    by (auto simp: not_less [symmetric] split: if_splits)
  from e show "\<forall>x \<in> set pca_loadings. 20 \<le> length (snd x) \<and> 2 \<le> length (snd (fst x))"
    by (auto simp: not_less [symmetric] split: if_splits)
  from e show "st' = st(pca_prefix @ ''scores.ht'' \<mapsto>
                     ScoresTableFile (map (\<lambda>x. \<lparr>scores_s = fst x, scores = snd x\<rparr>) pca_scores),
                   pca_prefix @ ''scores.txt.bgz'' \<mapsto>
                     TextFile (''s'' # PC_names)
                       (map (\<lambda>x. Str (fst x) # PC_cells (snd x)) pca_scores),
                   pca_prefix @ ''loadings.txt.bgz'' \<mapsto>
                     TextFile [''locus'', ''alleles'', ''loadings'', ''pca_af'']
                       (map loadings_cells (annotate_pca_af mt pca_loadings)),
                   pca_prefix @ ''loadings.ht'' \<mapsto>
                     LoadingsTableFile (annotate_pca_af mt pca_loadings),
                   pca_prefix @ ''loadings.plink.tsv'' \<mapsto>
                     TextFile (''ID'' # ''ALT'' # PC_names)
                       (map (\<lambda>x. Str (variant_str (fst (fst x)) (snd (fst x)))
                                  # Str (snd (fst x) ! 1) # PC_cells (snd x)) pca_loadings),
                   pca_prefix @ ''loadings.plink.afreq'' \<mapsto>
                     TextFile [''#ID'', ''REF'', ''ALT'', ''ALT1_FREQ'']
                       (map (\<lambda>x. [Str (variant_str (fst (fst x)) (snd (fst x))),
                                   Str (snd (fst x) ! 0), Str (snd (fst x) ! 1),
                                   (case lookup_pca_af mt (fst x) of
                                      None \<Rightarrow> Missing | Some f \<Rightarrow> Float f)]) pca_loadings))"
    by (simp only: split: if_splits) simp_all
qed

text \<open>
  C8, as the code has it. A run that succeeds has called the engine with \<open>k = 20\<close>
  and read the entries 1 to 20 of every score and loading vector, each of which has at
  least twenty entries, and exactly twenty when the engine returns \<open>k\<close> of them; the
  eigenvalues are not used. The scores export has the columns \<open>s\<close> and PC1 to PC20;
  the PLINK loadings export has \<open>ID\<close> (the variant string), \<open>ALT\<close> and PC1 to PC20;
  the frequency export has \<open>#ID\<close>, \<open>REF\<close>, \<open>ALT\<close> and \<open>ALT1_FREQ\<close>. The
  export of line 87 has the columns \<open>locus\<close>, \<open>alleles\<close>, \<open>loadings\<close> and
  \<open>pca_af\<close>, with each loading vector whole in the one column \<open>loadings\<close>.
\<close>

theorem pca_exports_read_twenty_components:
  assumes "read_matrix_table st prune_out = Inr mt"
    and "hwe_normalized_pca mt 20 = Inr (pca_evals, pca_scores, pca_loadings)"
    and "run_pca hwe_normalized_pca prune_out pca_prefix overwrite st = Inr st'"
  shows "(\<forall>x \<in> set pca_scores. 20 \<le> length (snd x)) \<and>
     (\<forall>x \<in> set pca_loadings. 20 \<le> length (snd x)) \<and>
     ((\<forall>m k ev sc ld. hwe_normalized_pca m k = Inr (ev, sc, ld) \<longrightarrow>
          length ev = k \<and> (\<forall>x \<in> set sc. length (snd x) = k) \<and>
          (\<forall>x \<in> set ld. length (snd x) = k)) \<longrightarrow>
        length pca_evals = 20 \<and> (\<forall>x \<in> set pca_scores. length (snd x) = 20) \<and>
        (\<forall>x \<in> set pca_loadings. length (snd x) = 20)) \<and>
     st' (pca_prefix @ ''scores.ht'') =
       Some (ScoresTableFile (map (\<lambda>x. \<lparr>scores_s = fst x, scores = snd x\<rparr>) pca_scores)) \<and>
     st' (pca_prefix @ ''loadings.ht'') =
       Some (LoadingsTableFile (annotate_pca_af mt pca_loadings)) \<and>
     st' (pca_prefix @ ''scores.txt.bgz'') =
       Some (TextFile (''s'' # [''PC1'', ''PC2'', ''PC3'', ''PC4'', ''PC5'', ''PC6'', ''PC7'', ''PC8'', ''PC9'', ''PC10'', ''PC11'', ''PC12'', ''PC13'', ''PC14'', ''PC15'', ''PC16'', ''PC17'', ''PC18'', ''PC19'', ''PC20''])
              (map (\<lambda>x. Str (fst x) # map Float (take 20 (snd x))) pca_scores)) \<and>
     st' (pca_prefix @ ''loadings.txt.bgz'') =
       Some (TextFile [''locus'', ''alleles'', ''loadings'', ''pca_af'']
              (map loadings_cells (annotate_pca_af mt pca_loadings))) \<and>
     st' (pca_prefix @ ''loadings.plink.tsv'') =
       Some (TextFile (''ID'' # ''ALT'' # [''PC1'', ''PC2'', ''PC3'', ''PC4'', ''PC5'', ''PC6'', ''PC7'', ''PC8'', ''PC9'', ''PC10'', ''PC11'', ''PC12'', ''PC13'', ''PC14'', ''PC15'', ''PC16'', ''PC17'', ''PC18'', ''PC19'', ''PC20''])
              (map (\<lambda>x. Str (variant_str (fst (fst x)) (snd (fst x)))
                          # Str (snd (fst x) ! 1) # map Float (take 20 (snd x))) pca_loadings)) \<and>
     st' (pca_prefix @ ''loadings.plink.afreq'') =
       Some (TextFile [''#ID'', ''REF'', ''ALT'', ''ALT1_FREQ'']
              (map (\<lambda>x. [Str (variant_str (fst (fst x)) (snd (fst x))),
                          Str (snd (fst x) ! 0), Str (snd (fst x) ! 1),
                          (case lookup_pca_af mt (fst x) of
                             None \<Rightarrow> Missing | Some f \<Rightarrow> Float f)]) pca_loadings))"
proof -
  note r = run_pca_Inr [where hwe_normalized_pca = hwe_normalized_pca, OF assms]
  have sc: "map (\<lambda>x. Str (fst x) # PC_cells (snd x)) pca_scores =
      map (\<lambda>x. Str (fst x) # map Float (take 20 (snd x))) pca_scores"
    using r(1) by (simp add: PC_cells_take)
  have ld: "map (\<lambda>x. Str (variant_str (fst (fst x)) (snd (fst x)))
                          # Str (snd (fst x) ! 1) # PC_cells (snd x)) pca_loadings =
      map (\<lambda>x. Str (variant_str (fst (fst x)) (snd (fst x)))
                          # Str (snd (fst x) ! 1) # map Float (take 20 (snd x))) pca_loadings"
    using r(2) by (simp add: PC_cells_take del: One_nat_def)
  have k: "length pca_evals = 20 \<and> (\<forall>x \<in> set pca_scores. length (snd x) = 20) \<and>
        (\<forall>x \<in> set pca_loadings. length (snd x) = 20)"
    if "\<forall>m k ev sc ld. hwe_normalized_pca m k = Inr (ev, sc, ld) \<longrightarrow>
          length ev = k \<and> (\<forall>x \<in> set sc. length (snd x) = k) \<and>
          (\<forall>x \<in> set ld. length (snd x) = k)"
    using that assms(2) by blast
  have f: "st' (pca_prefix @ ''scores.ht'') =
       Some (ScoresTableFile (map (\<lambda>x. \<lparr>scores_s = fst x, scores = snd x\<rparr>) pca_scores)) \<and>
     st' (pca_prefix @ ''loadings.ht'') =
       Some (LoadingsTableFile (annotate_pca_af mt pca_loadings)) \<and>
     st' (pca_prefix @ ''scores.txt.bgz'') =
       Some (TextFile (''s'' # [''PC1'', ''PC2'', ''PC3'', ''PC4'', ''PC5'', ''PC6'', ''PC7'', ''PC8'', ''PC9'', ''PC10'', ''PC11'', ''PC12'', ''PC13'', ''PC14'', ''PC15'', ''PC16'', ''PC17'', ''PC18'', ''PC19'', ''PC20''])
              (map (\<lambda>x. Str (fst x) # map Float (take 20 (snd x))) pca_scores)) \<and>
     st' (pca_prefix @ ''loadings.txt.bgz'') =
       Some (TextFile [''locus'', ''alleles'', ''loadings'', ''pca_af'']
              (map loadings_cells (annotate_pca_af mt pca_loadings))) \<and>
     st' (pca_prefix @ ''loadings.plink.tsv'') =
       Some (TextFile (''ID'' # ''ALT'' # [''PC1'', ''PC2'', ''PC3'', ''PC4'', ''PC5'', ''PC6'', ''PC7'', ''PC8'', ''PC9'', ''PC10'', ''PC11'', ''PC12'', ''PC13'', ''PC14'', ''PC15'', ''PC16'', ''PC17'', ''PC18'', ''PC19'', ''PC20''])
              (map (\<lambda>x. Str (variant_str (fst (fst x)) (snd (fst x)))
                          # Str (snd (fst x) ! 1) # map Float (take 20 (snd x))) pca_loadings)) \<and>
     st' (pca_prefix @ ''loadings.plink.afreq'') =
       Some (TextFile [''#ID'', ''REF'', ''ALT'', ''ALT1_FREQ'']
              (map (\<lambda>x. [Str (variant_str (fst (fst x)) (snd (fst x))),
                          Str (snd (fst x) ! 0), Str (snd (fst x) ! 1),
                          (case lookup_pca_af mt (fst x) of
                             None \<Rightarrow> Missing | Some f \<Rightarrow> Float f)]) pca_loadings))"
    unfolding r(3) sc ld PC_names_eq by simp
  from r(1,2) k f show ?thesis
    by blast
qed

lemma ex_variant_str: "variant_str (ex_locus 1065) [''A'', ''G''] = ''chr1:1065:A:G''"
  by code_simp

lemma ex_pca_rows:
  "map (\<lambda>r. (row_key r, replicate 20 (0::real))) (rows ex_pca_mt) =
     [((ex_locus 1065, [''A'', ''G'']), replicate 20 0)]"
  by (simp add: ex_pca_mt_def row_key_def ex_variant_def)

lemma ex_pca_lookup:
  "lookup_pca_af ex_pca_mt (ex_locus 1065, [''A'', ''G'']) = Some (1 / 2)"
proof -
  have "find (\<lambda>r. row_key r = (ex_locus 1065, [''A'', ''G''])) (rows ex_pca_mt) =
      Some (ex_variant 1065 ''A'' ''G'' (replicate 20 (Some (Call 0 1))))"
    by (simp add: ex_pca_mt_def row_key_def ex_variant_def)
  moreover have "n_called (replicate 20 (Some (Call 0 1))) = 20"
    by (simp add: n_called_def)
  moreover have "sum_n_alt (replicate 20 (Some (Call 0 1))) = 20"
    by (simp add: sum_n_alt_def n_alt_alleles_def sum_list_replicate)
  ultimately show ?thesis
    by (simp add: lookup_pca_af_def row_pca_af_def agg_mean_n_alt_alleles_def ex_variant_def
        del: One_nat_def)
qed

lemma ex_run_pca_Inr:
  "run_pca ex_engine ''prune.mt'' ''pca_'' False ex_pca_storage =
     Inr (projr (run_pca ex_engine ''prune.mt'' ''pca_'' False ex_pca_storage))"
  using ex_run_pca_succeeds
  by (cases "run_pca ex_engine ''prune.mt'' ''pca_'' False ex_pca_storage") simp_all

theorem pca_exports_read_twenty_components_witness:
  "read_matrix_table ex_pca_storage ''prune.mt'' = Inr ex_pca_mt \<and>
   ex_engine ex_pca_mt 20 =
     Inr (replicate 20 1, map (\<lambda>c. (col_s c, replicate 20 0)) (cols ex_pca_mt),
          map (\<lambda>r. (row_key r, replicate 20 0)) (rows ex_pca_mt)) \<and>
   \<not> isl (run_pca ex_engine ''prune.mt'' ''pca_'' False ex_pca_storage) \<and>
   projr (run_pca ex_engine ''prune.mt'' ''pca_'' False ex_pca_storage) (''pca_'' @ ''loadings.plink.tsv'') =
     Some (TextFile (''ID'' # ''ALT'' # [''PC1'', ''PC2'', ''PC3'', ''PC4'', ''PC5'', ''PC6'', ''PC7'', ''PC8'', ''PC9'', ''PC10'', ''PC11'', ''PC12'', ''PC13'', ''PC14'', ''PC15'', ''PC16'', ''PC17'', ''PC18'', ''PC19'', ''PC20''])
       [Str ''chr1:1065:A:G'' # Str ''G'' # map Float (replicate 20 0)]) \<and>
   projr (run_pca ex_engine ''prune.mt'' ''pca_'' False ex_pca_storage) (''pca_'' @ ''loadings.plink.afreq'') =
     Some (TextFile [''#ID'', ''REF'', ''ALT'', ''ALT1_FREQ'']
       [[Str ''chr1:1065:A:G'', Str ''A'', Str ''G'', Float (1 / 2)]])"
proof -
  let ?r = "run_pca ex_engine ''prune.mt'' ''pca_'' False ex_pca_storage"
  note t = pca_exports_read_twenty_components
    [where hwe_normalized_pca = ex_engine, OF ex_pca_read ex_engine_pca ex_run_pca_Inr]
  note t8 = t [THEN conjunct2, THEN conjunct2, THEN conjunct2, THEN conjunct2, THEN conjunct2,
      THEN conjunct2, THEN conjunct2, THEN conjunct1]
    and t9 = t [THEN conjunct2, THEN conjunct2, THEN conjunct2, THEN conjunct2, THEN conjunct2,
      THEN conjunct2, THEN conjunct2, THEN conjunct2]
  have tk: "take 20 (replicate 20 (0::real)) = replicate 20 0"
    by simp
  from t8 t9
  have "projr ?r (''pca_'' @ ''loadings.plink.tsv'') =
       Some (TextFile (''ID'' # ''ALT'' # [''PC1'', ''PC2'', ''PC3'', ''PC4'', ''PC5'', ''PC6'', ''PC7'', ''PC8'', ''PC9'', ''PC10'', ''PC11'', ''PC12'', ''PC13'', ''PC14'', ''PC15'', ''PC16'', ''PC17'', ''PC18'', ''PC19'', ''PC20''])
         [Str ''chr1:1065:A:G'' # Str ''G'' # map Float (replicate 20 0)])"
    and "projr ?r (''pca_'' @ ''loadings.plink.afreq'') =
       Some (TextFile [''#ID'', ''REF'', ''ALT'', ''ALT1_FREQ'']
         [[Str ''chr1:1065:A:G'', Str ''A'', Str ''G'', Float (1 / 2)]])"
    unfolding ex_pca_rows
    by (simp_all only: list.map fst_conv snd_conv ex_variant_str ex_pca_lookup option.case
        nth_Cons_0 nth_Cons_Suc One_nat_def tk)
  with ex_pca_read ex_engine_pca ex_run_pca_succeeds show ?thesis
    by (intro conjI)
qed

text \<open>
  C8 as stated fails on the export of line 87: in the run on the twenty-sample matrix
  its columns are \<open>locus\<close>, \<open>alleles\<close>, \<open>loadings\<close> and \<open>pca_af\<close>, the
  twenty loadings of the variant in one cell, and no column is named PC1.
\<close>

theorem raw_loadings_export_has_no_component_columns:
  "\<not> isl (run_pca ex_engine ''prune.mt'' ''pca_'' False ex_pca_storage) \<and>
   projr (run_pca ex_engine ''prune.mt'' ''pca_'' False ex_pca_storage) (''pca_'' @ ''loadings.txt.bgz'') =
     Some (TextFile [''locus'', ''alleles'', ''loadings'', ''pca_af'']
       [[LocusCell (ex_locus 1065), StrArray [''A'', ''G''], FloatArray (replicate 20 0),
         Float (1 / 2)]]) \<and>
   ''PC1'' \<notin> set [''locus'', ''alleles'', ''loadings'', ''pca_af'']"
proof -
  let ?r = "run_pca ex_engine ''prune.mt'' ''pca_'' False ex_pca_storage"
  note r = run_pca_Inr(3) [where hwe_normalized_pca = ex_engine,
      OF ex_pca_read ex_engine_pca ex_run_pca_Inr]
  have "projr ?r (''pca_'' @ ''loadings.txt.bgz'') =
      Some (TextFile [''locus'', ''alleles'', ''loadings'', ''pca_af'']
        (map loadings_cells
          (annotate_pca_af ex_pca_mt (map (\<lambda>r. (row_key r, replicate 20 0)) (rows ex_pca_mt)))))"
    by (subst r) simp
  then have "projr ?r (''pca_'' @ ''loadings.txt.bgz'') =
     Some (TextFile [''locus'', ''alleles'', ''loadings'', ''pca_af'']
       [[LocusCell (ex_locus 1065), StrArray [''A'', ''G''], FloatArray (replicate 20 0),
         Float (1 / 2)]])"
    unfolding ex_pca_rows
    by (simp only: annotate_pca_af_def loadings_cells_def list.map fst_conv snd_conv
        ex_pca_lookup option.case loadings_row.simps)
  moreover have "''PC1'' \<notin> set [''locus'', ''alleles'', ''loadings'', ''pca_af'']"
    by simp
  ultimately show ?thesis
    using ex_run_pca_succeeds by (intro conjI)
qed

section \<open>Checkpoints and the overwrite flag\<close>

lemma ref_filtering_reuse_any_flag:
  assumes "read_matrix_table st ref_mt = Inr mt"
    and "''qc_metrics_filters'' \<in> set (sample_filters mt)"
    and "bad_sample_filters mt \<noteq> []"
    and "st pass_mt = Some (MatrixTableFile m)"
    and "read_matrix_table st unrel = Inr mt_unrel"
    and "import_table st outliers = Inr t"
    and "key_by_s t = Inr pca_outliers"
  shows "ref_filtering ref_mt pass_mt unrel outliers pass_unrel_mt overwrite st =
     (if st pass_unrel_mt \<noteq> None \<and> \<not> overwrite then Inl (FileExists pass_unrel_mt)
      else Inr (st(pass_unrel_mt \<mapsto>
             MatrixTableFile (unrelated_non_outliers mt_unrel pca_outliers m))))"
  using assms by (auto simp: ref_filtering_def checkpoint_reuses write_file_def)

lemma ref_filtering_fresh_any_flag:
  assumes "read_matrix_table st ref_mt = Inr mt"
    and "''qc_metrics_filters'' \<in> set (sample_filters mt)"
    and "bad_sample_filters mt \<noteq> []"
    and "st pass_mt = None"
    and "pass_mt \<noteq> unrel" and "pass_mt \<noteq> outliers" and "pass_mt \<noteq> pass_unrel_mt"
    and "read_matrix_table st unrel = Inr mt_unrel"
    and "import_table st outliers = Inr t"
    and "key_by_s t = Inr pca_outliers"
  shows "ref_filtering ref_mt pass_mt unrel outliers pass_unrel_mt overwrite st =
     (if st pass_unrel_mt \<noteq> None \<and> \<not> overwrite then Inl (FileExists pass_unrel_mt)
      else Inr (st(pass_mt \<mapsto> MatrixTableFile (qc_pass_samples mt),
             pass_unrel_mt \<mapsto> MatrixTableFile
               (unrelated_non_outliers mt_unrel pca_outliers (qc_pass_samples mt)))))"
  using assms
  by (auto simp: ref_filtering_def checkpoint_fresh write_file_def read_matrix_table_upd
      import_table_upd)

lemma ref_filtering_keeps_checkpoint:
  assumes "ref_filtering ref_mt pass_mt unrel outliers pass_unrel_mt overwrite st = Inr st'"
    and "st pass_mt = Some f" and "pass_mt \<noteq> pass_unrel_mt"
  shows "st' pass_mt = Some f"
proof -
  from assms(1) obtain mt st1 mt_filt mt_unrel t pca_outliers where
    ck: "checkpoint st (Inr (qc_pass_samples mt)) pass_mt False True = Inr (st1, mt_filt)" and
    st': "st' = st1(pass_unrel_mt \<mapsto>
            MatrixTableFile (unrelated_non_outliers mt_unrel pca_outliers mt_filt))"
    by (rule ref_filtering_Inr)
  from checkpoint_False_True_cases [OF ck] assms(2) have "st1 = st"
    by auto
  with st' assms(2,3) show ?thesis
    by simp
qed

lemma ref_filtering_existing_output_fails:
  assumes "st pass_unrel_mt \<noteq> None"
  shows "\<exists>e. ref_filtering ref_mt pass_mt unrel outliers pass_unrel_mt False st = Inl e"
proof (cases "ref_filtering ref_mt pass_mt unrel outliers pass_unrel_mt False st")
  case (Inl e)
  then show ?thesis by blast
next
  case (Inr st')
  then obtain mt st1 mt_filt mt_unrel pca_outliers where
    ck: "checkpoint st (Inr (qc_pass_samples mt)) pass_mt False True = Inr (st1, mt_filt)" and
    wr: "write_file st1 pass_unrel_mt
          (MatrixTableFile (unrelated_non_outliers mt_unrel pca_outliers mt_filt)) False = Inr st'"
    by (auto simp: ref_filtering_def split: sum.splits if_splits prod.splits)
  from checkpoint_False_True_cases [OF ck] assms have "st1 pass_unrel_mt \<noteq> None"
    by auto
  with wr show ?thesis
    by (simp add: write_file_def)
qed

lemma ld_prune_filter_any_flag:
  assumes "read_matrix_table st intersect_out = Inr mt"
    and "af_filter mt = Inr mt_filt"
    and "ld_prune mt_filt (8 / 10) 500000 = Inr keys"
  shows "ld_prune_filter ld_prune intersect_out prune_out overwrite st =
     (if st prune_out \<noteq> None \<and> \<not> overwrite then Inl (FileExists prune_out)
      else Inr (st(prune_out \<mapsto>
             MatrixTableFile (filter_rows (\<lambda>r. row_key r \<in> set keys) mt_filt))))"
  unfolding ld_prune_filter_def
  by (simp only: assms sum.case write_file_def)

lemma ld_prune_filter_existing_output_fails:
  assumes "st prune_out \<noteq> None"
  shows "\<exists>e. ld_prune_filter ld_prune intersect_out prune_out False st = Inl e"
  using assms by (auto simp: ld_prune_filter_def write_file_def split: sum.splits)

lemma run_pca_existing_output_fails:
  assumes "st (pca_prefix @ ''scores.ht'') \<noteq> None \<or> st (pca_prefix @ ''loadings.ht'') \<noteq> None"
  shows "\<exists>e. run_pca hwe_normalized_pca prune_out pca_prefix False st = Inl e"
proof (cases "read_matrix_table st prune_out")
  case (Inl e)
  then show ?thesis by (simp add: run_pca_def)
next
  case (Inr mt)
  show ?thesis
  proof (cases "hwe_normalized_pca mt 20")
    case (Inl e)
    with Inr show ?thesis by (simp add: run_pca_def)
  next
    case r: (Inr res)
    obtain ev sc ld where res: "res = (ev, sc, ld)"
      by (cases res) auto
    note e = run_pca_eq [where hwe_normalized_pca = hwe_normalized_pca and overwrite = False
        and pca_prefix = pca_prefix, OF Inr r [unfolded res]]
    from assms show ?thesis
      unfolding e by auto
  qed
qed

lemma run_pca_overwrites:
  assumes "read_matrix_table st prune_out = Inr mt"
    and "hwe_normalized_pca mt 20 = Inr (pca_evals, pca_scores, pca_loadings)"
    and "\<forall>x \<in> set pca_scores. 20 \<le> length (snd x)"
    and "\<forall>x \<in> set pca_loadings. 2 \<le> length (snd (fst x)) \<and> 20 \<le> length (snd x)"
  shows "\<exists>st2. run_pca hwe_normalized_pca prune_out pca_prefix True st = Inr st2 \<and>
     st2 (pca_prefix @ ''scores.ht'') =
       Some (ScoresTableFile (map (\<lambda>x. \<lparr>scores_s = fst x, scores = snd x\<rparr>) pca_scores)) \<and>
     st2 (pca_prefix @ ''loadings.ht'') =
       Some (LoadingsTableFile (annotate_pca_af mt pca_loadings))"
proof -
  have a: "\<not> (\<exists>x \<in> set pca_scores. length (snd x) < 20)"
    using assms(3) by (simp only: not_less [symmetric]) blast
  have b: "\<not> (\<exists>x \<in> set pca_loadings. length (snd (fst x)) < 2 \<or> length (snd x) < 20)"
    using assms(4) by (simp only: not_less [symmetric]) blast
  show ?thesis
    unfolding run_pca_eq [where hwe_normalized_pca = hwe_normalized_pca, OF assms(1,2)]
    by (simp only: a b if_False simp_thms) simp
qed

text \<open>
  C6, as the code has it. The intersection stage follows the flag: unset, it reuses a
  matrix stored at \<open>intersect_out\<close> and leaves the storage as it is, the panel
  unread; set, it recomputes and replaces what the path holds, and fails when a panel line
  is no locus of the labelled reference genome. The sample filter reuses a matrix stored
  at \<open>pass_mt\<close> whatever the flag, computes its output from it, and a run that
  succeeds leaves it in place; only with nothing stored there does it store the filtered
  matrix. The outputs that the sample filter, the pruning stage and the PCA stage write
  with \<^verbatim>\<open>write\<close> (\<open>pass_unrel_mt\<close>, \<open>prune_out\<close>, the scores table and the
  loadings table) follow the flag differently: set, the computed output replaces what the
  path holds; unset with the path occupied, the stage fails and reuses nothing. Output
  paths are taken to differ from the paths read.
\<close>

theorem checkpoints_and_overwrite_flag:
  "(read_matrix_table st ref_mt_filt = Inr mt_ref \<longrightarrow>
      (\<forall>m. st intersect_out = Some (MatrixTableFile m) \<longrightarrow>
         intersect_target_ref lengths chain ref_mt_filt snp_list label intersect_out False st =
           Inr st) \<and>
      (ref_mt_filt \<noteq> intersect_out \<longrightarrow>
         intersect_target_ref lengths chain ref_mt_filt snp_list label intersect_out True st =
           (case intersect_rows lengths chain snp_list label mt_ref of
              Inl e \<Rightarrow> Inl e
            | Inr m \<Rightarrow> Inr (st(intersect_out \<mapsto> MatrixTableFile m))))) \<and>
   (read_matrix_table st ref_mt = Inr mt_qc \<and> ''qc_metrics_filters'' \<in> set (sample_filters mt_qc) \<and>
    bad_sample_filters mt_qc \<noteq> [] \<and> read_matrix_table st unrel = Inr mt_unrel \<and>
    import_table st outliers = Inr t \<and> key_by_s t = Inr pca_outliers \<and>
    pass_unrel_mt \<notin> {ref_mt, pass_mt, unrel, outliers} \<longrightarrow>
      (\<forall>m2. st pass_mt = Some (MatrixTableFile m2) \<longrightarrow>
         ref_filtering ref_mt pass_mt unrel outliers pass_unrel_mt overwrite st =
           (if st pass_unrel_mt \<noteq> None \<and> \<not> overwrite then Inl (FileExists pass_unrel_mt)
            else Inr (st(pass_unrel_mt \<mapsto>
                   MatrixTableFile (unrelated_non_outliers mt_unrel pca_outliers m2))))) \<and>
      (st pass_mt = None \<and> pass_mt \<noteq> unrel \<and> pass_mt \<noteq> outliers \<longrightarrow>
         ref_filtering ref_mt pass_mt unrel outliers pass_unrel_mt overwrite st =
           (if st pass_unrel_mt \<noteq> None \<and> \<not> overwrite then Inl (FileExists pass_unrel_mt)
            else Inr (st(pass_mt \<mapsto> MatrixTableFile (qc_pass_samples mt_qc),
                   pass_unrel_mt \<mapsto> MatrixTableFile
                     (unrelated_non_outliers mt_unrel pca_outliers (qc_pass_samples mt_qc))))))) \<and>
   (ref_filtering ref_mt pass_mt unrel outliers pass_unrel_mt overwrite st = Inr st' \<and>
    st pass_mt = Some f \<and> pass_mt \<noteq> pass_unrel_mt \<longrightarrow> st' pass_mt = Some f) \<and>
   (st pass_unrel_mt \<noteq> None \<longrightarrow>
      (\<exists>e. ref_filtering ref_mt pass_mt unrel outliers pass_unrel_mt False st = Inl e)) \<and>
   (read_matrix_table st prune_in = Inr mt_int \<and> af_filter mt_int = Inr mt_filt \<and>
    ld_prune mt_filt (8 / 10) 500000 = Inr keys \<and> prune_in \<noteq> prune_out \<longrightarrow>
      ld_prune_filter ld_prune prune_in prune_out overwrite st =
        (if st prune_out \<noteq> None \<and> \<not> overwrite then Inl (FileExists prune_out)
         else Inr (st(prune_out \<mapsto>
                MatrixTableFile (filter_rows (\<lambda>r. row_key r \<in> set keys) mt_filt))))) \<and>
   (st prune_out \<noteq> None \<longrightarrow>
      (\<exists>e. ld_prune_filter ld_prune prune_in prune_out False st = Inl e)) \<and>
   (st (pca_prefix @ ''scores.ht'') \<noteq> None \<or> st (pca_prefix @ ''loadings.ht'') \<noteq> None \<longrightarrow>
      (\<exists>e. run_pca hwe_normalized_pca pca_in pca_prefix False st = Inl e)) \<and>
   (read_matrix_table st pca_in = Inr mt_pruned \<and>
    hwe_normalized_pca mt_pruned 20 = Inr (pca_evals, pca_scores, pca_loadings) \<and>
    (\<forall>x \<in> set pca_scores. 20 \<le> length (snd x)) \<and>
    (\<forall>x \<in> set pca_loadings. 2 \<le> length (snd (fst x)) \<and> 20 \<le> length (snd x)) \<and>
    pca_in \<notin> set (map ((@) pca_prefix)
      [''scores.ht'', ''scores.txt.bgz'', ''loadings.txt.bgz'', ''loadings.ht'',
       ''loadings.plink.tsv'', ''loadings.plink.afreq'']) \<longrightarrow>
      (\<exists>st2. run_pca hwe_normalized_pca pca_in pca_prefix True st = Inr st2 \<and>
         st2 (pca_prefix @ ''scores.ht'') =
           Some (ScoresTableFile
                  (map (\<lambda>x. \<lparr>scores_s = fst x, scores = snd x\<rparr>) pca_scores)) \<and>
         st2 (pca_prefix @ ''loadings.ht'') =
           Some (LoadingsTableFile (annotate_pca_af mt_pruned pca_loadings))))"
proof (intro conjI impI allI; (elim conjE)?)
  fix m
  assume "read_matrix_table st ref_mt_filt = Inr mt_ref" "st intersect_out = Some (MatrixTableFile m)"
  then show "intersect_target_ref lengths chain ref_mt_filt snp_list label intersect_out False st =
      Inr st"
    by (rule intersect_target_ref_reuses)
next
  assume "read_matrix_table st ref_mt_filt = Inr mt_ref"
  then show "intersect_target_ref lengths chain ref_mt_filt snp_list label intersect_out True st =
      (case intersect_rows lengths chain snp_list label mt_ref of
         Inl e \<Rightarrow> Inl e
       | Inr m \<Rightarrow> Inr (st(intersect_out \<mapsto> MatrixTableFile m)))"
    by (rule intersect_target_ref_computes) simp
next
  fix m2
  assume "read_matrix_table st ref_mt = Inr mt_qc" "''qc_metrics_filters'' \<in> set (sample_filters mt_qc)"
    "bad_sample_filters mt_qc \<noteq> []" "read_matrix_table st unrel = Inr mt_unrel"
    "import_table st outliers = Inr t" "key_by_s t = Inr pca_outliers"
    "st pass_mt = Some (MatrixTableFile m2)"
  then show "ref_filtering ref_mt pass_mt unrel outliers pass_unrel_mt overwrite st =
           (if st pass_unrel_mt \<noteq> None \<and> \<not> overwrite then Inl (FileExists pass_unrel_mt)
            else Inr (st(pass_unrel_mt \<mapsto>
                   MatrixTableFile (unrelated_non_outliers mt_unrel pca_outliers m2))))"
    by (intro ref_filtering_reuse_any_flag [where mt = mt_qc and t = t])
next
  assume "read_matrix_table st ref_mt = Inr mt_qc" "''qc_metrics_filters'' \<in> set (sample_filters mt_qc)"
    "bad_sample_filters mt_qc \<noteq> []" "read_matrix_table st unrel = Inr mt_unrel"
    "import_table st outliers = Inr t" "key_by_s t = Inr pca_outliers"
    "pass_unrel_mt \<notin> {ref_mt, pass_mt, unrel, outliers}"
    "st pass_mt = None" "pass_mt \<noteq> unrel" "pass_mt \<noteq> outliers"
  then show "ref_filtering ref_mt pass_mt unrel outliers pass_unrel_mt overwrite st =
           (if st pass_unrel_mt \<noteq> None \<and> \<not> overwrite then Inl (FileExists pass_unrel_mt)
            else Inr (st(pass_mt \<mapsto> MatrixTableFile (qc_pass_samples mt_qc),
                   pass_unrel_mt \<mapsto> MatrixTableFile
                     (unrelated_non_outliers mt_unrel pca_outliers (qc_pass_samples mt_qc)))))"
    by (intro ref_filtering_fresh_any_flag [where mt = mt_qc and t = t]) auto
next
  assume "ref_filtering ref_mt pass_mt unrel outliers pass_unrel_mt overwrite st = Inr st'"
    "st pass_mt = Some f" "pass_mt \<noteq> pass_unrel_mt"
  then show "st' pass_mt = Some f"
    by (rule ref_filtering_keeps_checkpoint)
next
  assume "st pass_unrel_mt \<noteq> None"
  then show "\<exists>e. ref_filtering ref_mt pass_mt unrel outliers pass_unrel_mt False st = Inl e"
    by (rule ref_filtering_existing_output_fails)
next
  assume "read_matrix_table st prune_in = Inr mt_int" "af_filter mt_int = Inr mt_filt"
    "ld_prune mt_filt (8 / 10) 500000 = Inr keys"
  then show "ld_prune_filter ld_prune prune_in prune_out overwrite st =
        (if st prune_out \<noteq> None \<and> \<not> overwrite then Inl (FileExists prune_out)
         else Inr (st(prune_out \<mapsto>
                MatrixTableFile (filter_rows (\<lambda>r. row_key r \<in> set keys) mt_filt))))"
    by (rule ld_prune_filter_any_flag)
next
  assume "st prune_out \<noteq> None"
  then show "\<exists>e. ld_prune_filter ld_prune prune_in prune_out False st = Inl e"
    by (rule ld_prune_filter_existing_output_fails)
next
  assume "st (pca_prefix @ ''scores.ht'') \<noteq> None \<or> st (pca_prefix @ ''loadings.ht'') \<noteq> None"
  then show "\<exists>e. run_pca hwe_normalized_pca pca_in pca_prefix False st = Inl e"
    by (rule run_pca_existing_output_fails)
next
  assume "read_matrix_table st pca_in = Inr mt_pruned"
    "hwe_normalized_pca mt_pruned 20 = Inr (pca_evals, pca_scores, pca_loadings)"
    "\<forall>x \<in> set pca_scores. 20 \<le> length (snd x)"
    "\<forall>x \<in> set pca_loadings. 2 \<le> length (snd (fst x)) \<and> 20 \<le> length (snd x)"
  then show "\<exists>st2. run_pca hwe_normalized_pca pca_in pca_prefix True st = Inr st2 \<and>
         st2 (pca_prefix @ ''scores.ht'') =
           Some (ScoresTableFile
                  (map (\<lambda>x. \<lparr>scores_s = fst x, scores = snd x\<rparr>) pca_scores)) \<and>
         st2 (pca_prefix @ ''loadings.ht'') =
           Some (LoadingsTableFile (annotate_pca_af mt_pruned pca_loadings))"
    by (rule run_pca_overwrites [where hwe_normalized_pca = hwe_normalized_pca])
qed

lemma ex_occupied_reads:
  "read_matrix_table ex_occupied ''ref.mt'' = Inr ex_mt"
  "read_matrix_table ex_occupied ''unrel.mt'' = Inr (ex_mt\<lparr>rows := []\<rparr>)"
  "import_table ex_occupied ''outliers.txt'' = Inr ([''s''], [[Str ''S3'']])"
  "ex_occupied ''pass.mt'' = Some (MatrixTableFile ex_mt)"
  "ex_occupied ''out.mt'' = Some (MatrixTableFile ex_mt)"
  "ex_occupied ''pca_scores.ht'' = Some (ScoresTableFile [])"
  "ex_occupied ''pca_loadings.ht'' = Some (LoadingsTableFile [])"
  "read_matrix_table ex_occupied ''prune.mt'' = Inr ex_pca_mt"
  by (simp_all add: ex_occupied_def ex_storage_def read_matrix_table_def import_table_def)

lemma ex_af_filter_ref: "af_filter ex_mt = Inr ex_mt"
  by (simp add: af_filter_def ex_mt_def filter_rows_def AF0_in_range_def
      variant_qc_AF_def variant_qc_AN_def variant_qc_AC_def n_called_def ex_variant_def)

lemma ex_qc_changes: "qc_pass_samples ex_mt \<noteq> ex_mt"
proof
  assume "qc_pass_samples ex_mt = ex_mt"
  then have "cols (qc_pass_samples ex_mt) = cols ex_mt"
    by simp
  then show False
    by (simp add: cols_qc_pass_samples ex_bad_sample_filters)
       (simp add: ex_mt_def ex_sample_def qc_pass_def)
qed

theorem checkpoints_and_overwrite_flag_witness:
  "read_matrix_table ex_occupied ''ref.mt'' = Inr ex_mt \<and>
   ex_occupied ''out.mt'' = Some (MatrixTableFile ex_mt) \<and>
   ex_occupied ''pass.mt'' = Some (MatrixTableFile ex_mt) \<and>
   ex_occupied ''pca_scores.ht'' = Some (ScoresTableFile []) \<and>
   ex_occupied ''pca_loadings.ht'' = Some (LoadingsTableFile []) \<and>
   intersect_target_ref ex_lengths ex_chain ''ref.mt'' ex_panel37 ''GRCh37'' ''out.mt'' False
     ex_occupied = Inr ex_occupied \<and>
   intersect_target_ref ex_lengths ex_chain ''ref.mt'' ex_panel37 ''GRCh37'' ''out.mt'' True
     ex_occupied =
     Inr (ex_occupied(''out.mt'' \<mapsto> MatrixTableFile
       (ex_mt\<lparr>rows := [ex_variant 1065 ''A'' ''G'' [Some (Call 0 1), Some (Call 0 0), None]]\<rparr>))) \<and>
   ref_filtering ''ref.mt'' ''pass.mt'' ''unrel.mt'' ''outliers.txt'' ''out.mt'' True ex_occupied =
     Inr (ex_occupied(''out.mt'' \<mapsto>
       MatrixTableFile (unrelated_non_outliers (ex_mt\<lparr>rows := []\<rparr>) [Some (Str ''S3'')] ex_mt))) \<and>
   ref_filtering ''ref.mt'' ''pass.mt'' ''unrel.mt'' ''outliers.txt'' ''out.mt'' False ex_occupied =
     Inl (FileExists ''out.mt'') \<and>
   ld_prune_filter (ld_prune_spec ex_r2) ''ref.mt'' ''out.mt'' True ex_occupied =
     Inr (ex_occupied(''out.mt'' \<mapsto> MatrixTableFile
       (filter_rows (\<lambda>r. row_key r \<in> set [(ex_locus 1065, [''A'', ''G'']),
          (ex_locus 2000, [''C'', ''T''])]) ex_mt))) \<and>
   ld_prune_filter (ld_prune_spec ex_r2) ''ref.mt'' ''out.mt'' False ex_occupied =
     Inl (FileExists ''out.mt'') \<and>
   (\<exists>e. run_pca ex_engine ''prune.mt'' ''pca_'' False ex_occupied = Inl e) \<and>
   (\<exists>st2. run_pca ex_engine ''prune.mt'' ''pca_'' True ex_occupied = Inr st2 \<and>
      st2 (''pca_'' @ ''scores.ht'') =
        Some (ScoresTableFile (map (\<lambda>x. \<lparr>scores_s = fst x, scores = snd x\<rparr>)
          (map (\<lambda>c. (col_s c, replicate 20 0)) (cols ex_pca_mt)))) \<and>
      st2 (''pca_'' @ ''loadings.ht'') =
        Some (LoadingsTableFile (annotate_pca_af ex_pca_mt
          (map (\<lambda>r. (row_key r, replicate 20 0)) (rows ex_pca_mt)))))"
proof -
  note t = checkpoints_and_overwrite_flag
    [where st = ex_occupied and lengths = ex_lengths and chain = ex_chain
      and ref_mt_filt = "''ref.mt''" and mt_ref = ex_mt and intersect_out = "''out.mt''"
      and snp_list = ex_panel37 and label = "''GRCh37''"
      and ref_mt = "''ref.mt''" and mt_qc = ex_mt and pass_mt = "''pass.mt''"
      and unrel = "''unrel.mt''" and mt_unrel = "ex_mt\<lparr>rows := []\<rparr>"
      and outliers = "''outliers.txt''" and t = "([''s''], [[Str ''S3'']])"
      and pca_outliers = "[Some (Str ''S3'')]" and pass_unrel_mt = "''out.mt''"
      and prune_in = "''ref.mt''" and mt_int = ex_mt and mt_filt = ex_mt
      and ld_prune = "ld_prune_spec ex_r2"
      and keys = "[(ex_locus 1065, [''A'', ''G'']), (ex_locus 2000, [''C'', ''T''])]"
      and prune_out = "''out.mt''" and pca_prefix = "''pca_''" and pca_in = "''prune.mt''"
      and hwe_normalized_pca = ex_engine and mt_pruned = ex_pca_mt
      and pca_evals = "replicate 20 1"
      and pca_scores = "map (\<lambda>c. (col_s c, replicate 20 0)) (cols ex_pca_mt)"
      and pca_loadings = "map (\<lambda>r. (row_key r, replicate 20 0)) (rows ex_pca_mt)"]
  note c1 = t [THEN conjunct1]
    and c2 = t [THEN conjunct2, THEN conjunct1]
    and c5 = t [THEN conjunct2, THEN conjunct2, THEN conjunct2, THEN conjunct2, THEN conjunct1]
    and c7 = t [THEN conjunct2, THEN conjunct2, THEN conjunct2, THEN conjunct2, THEN conjunct2,
      THEN conjunct2, THEN conjunct1]
    and c8 = t [THEN conjunct2, THEN conjunct2, THEN conjunct2, THEN conjunct2, THEN conjunct2,
      THEN conjunct2, THEN conjunct2]
  have i1: "intersect_target_ref ex_lengths ex_chain ''ref.mt'' ex_panel37 ''GRCh37'' ''out.mt'' False
     ex_occupied = Inr ex_occupied"
    using c1 ex_occupied_reads(1,5) by blast
  have "intersect_target_ref ex_lengths ex_chain ''ref.mt'' ex_panel37 ''GRCh37'' ''out.mt'' True
     ex_occupied =
     (case intersect_rows ex_lengths ex_chain ex_panel37 ''GRCh37'' ex_mt of
        Inl e \<Rightarrow> Inl e
      | Inr m \<Rightarrow> Inr (ex_occupied(''out.mt'' \<mapsto> MatrixTableFile m)))"
    using c1 ex_occupied_reads(1) by simp
  then have i2: "intersect_target_ref ex_lengths ex_chain ''ref.mt'' ex_panel37 ''GRCh37'' ''out.mt'' True
     ex_occupied =
     Inr (ex_occupied(''out.mt'' \<mapsto> MatrixTableFile
       (ex_mt\<lparr>rows := [ex_variant 1065 ''A'' ''G'' [Some (Call 0 1), Some (Call 0 0), None]]\<rparr>)))"
    by (simp only: ex_intersect_rows_37 sum.case)
  have q: "\<And>overwrite.
     ref_filtering ''ref.mt'' ''pass.mt'' ''unrel.mt'' ''outliers.txt'' ''out.mt'' overwrite ex_occupied =
       (if ex_occupied ''out.mt'' \<noteq> None \<and> \<not> overwrite then Inl (FileExists ''out.mt'')
        else Inr (ex_occupied(''out.mt'' \<mapsto>
          MatrixTableFile (unrelated_non_outliers (ex_mt\<lparr>rows := []\<rparr>) [Some (Str ''S3'')] ex_mt))))"
    using c2 ex_occupied_reads(1-4) ex_schema ex_bad_nonempty ex_key_by_s by simp
  have l: "\<And>overwrite.
     ld_prune_filter (ld_prune_spec ex_r2) ''ref.mt'' ''out.mt'' overwrite ex_occupied =
       (if ex_occupied ''out.mt'' \<noteq> None \<and> \<not> overwrite then Inl (FileExists ''out.mt'')
        else Inr (ex_occupied(''out.mt'' \<mapsto> MatrixTableFile
          (filter_rows (\<lambda>r. row_key r \<in> set [(ex_locus 1065, [''A'', ''G'']),
             (ex_locus 2000, [''C'', ''T''])]) ex_mt))))"
    using c5 ex_occupied_reads(1) ex_af_filter_ref ex_ld_prune_spec by simp
  have o: "ex_occupied ''out.mt'' \<noteq> None"
    by (simp add: ex_occupied_reads)
  have p: "ex_occupied (''pca_'' @ ''scores.ht'') \<noteq> None \<or>
      ex_occupied (''pca_'' @ ''loadings.ht'') \<noteq> None"
    by (simp add: ex_occupied_reads)
  have n: "''prune.mt'' \<notin> set (map ((@) ''pca_'')
      [''scores.ht'', ''scores.txt.bgz'', ''loadings.txt.bgz'', ''loadings.ht'',
       ''loadings.plink.tsv'', ''loadings.plink.afreq''])"
    by simp
  have r1: "\<exists>e. run_pca ex_engine ''prune.mt'' ''pca_'' False ex_occupied = Inl e"
    using c7 p by blast
  have r2: "\<exists>st2. run_pca ex_engine ''prune.mt'' ''pca_'' True ex_occupied = Inr st2 \<and>
      st2 (''pca_'' @ ''scores.ht'') =
        Some (ScoresTableFile (map (\<lambda>x. \<lparr>scores_s = fst x, scores = snd x\<rparr>)
          (map (\<lambda>c. (col_s c, replicate 20 0)) (cols ex_pca_mt)))) \<and>
      st2 (''pca_'' @ ''loadings.ht'') =
        Some (LoadingsTableFile (annotate_pca_af ex_pca_mt
          (map (\<lambda>r. (row_key r, replicate 20 0)) (rows ex_pca_mt))))"
    using c8 ex_occupied_reads(8) ex_engine_pca ex_pca_vectors n by blast
  from ex_occupied_reads(1,5,4,6,7) i1 i2 q [of True] q [of False] l [of True] l [of False] o r1 r2
  show ?thesis
    by simp
qed


text \<open>
  C6 as stated fails twice on an occupied storage: with the flag set, the sample filter
  leaves the matrix at \<open>pass_mt\<close> in place although the filtered matrix differs from
  it; with the flag unset, the pruning stage does not reuse the matrix at its output path
  but fails.
\<close>

theorem flag_set_reuses_and_flag_unset_refuses:
  "ref_filtering ''ref.mt'' ''pass.mt'' ''unrel.mt'' ''outliers.txt'' ''out.mt'' True ex_occupied =
     Inr (ex_occupied(''out.mt'' \<mapsto>
       MatrixTableFile (unrelated_non_outliers (ex_mt\<lparr>rows := []\<rparr>) [Some (Str ''S3'')] ex_mt))) \<and>
   (ex_occupied(''out.mt'' \<mapsto>
       MatrixTableFile (unrelated_non_outliers (ex_mt\<lparr>rows := []\<rparr>) [Some (Str ''S3'')] ex_mt)))
     ''pass.mt'' = Some (MatrixTableFile ex_mt) \<and>
   qc_pass_samples ex_mt \<noteq> ex_mt \<and>
   ex_occupied ''out.mt'' = Some (MatrixTableFile ex_mt) \<and>
   ld_prune_filter (ld_prune_spec ex_r2) ''ref.mt'' ''out.mt'' False ex_occupied =
     Inl (FileExists ''out.mt'')"
proof -
  have a: "ref_filtering ''ref.mt'' ''pass.mt'' ''unrel.mt'' ''outliers.txt'' ''out.mt'' True ex_occupied =
     Inr (ex_occupied(''out.mt'' \<mapsto>
       MatrixTableFile (unrelated_non_outliers (ex_mt\<lparr>rows := []\<rparr>) [Some (Str ''S3'')] ex_mt)))"
    by (rule ref_filtering_reuse [OF ex_occupied_reads(1) ex_schema ex_bad_nonempty
          ex_occupied_reads(4) ex_occupied_reads(2) ex_occupied_reads(3) ex_key_by_s]) simp
  have b: "(ex_occupied(''out.mt'' \<mapsto>
       MatrixTableFile (unrelated_non_outliers (ex_mt\<lparr>rows := []\<rparr>) [Some (Str ''S3'')] ex_mt)))
     ''pass.mt'' = Some (MatrixTableFile ex_mt)"
    by (simp add: ex_occupied_reads)
  have c: "ld_prune_filter (ld_prune_spec ex_r2) ''ref.mt'' ''out.mt'' False ex_occupied =
     Inl (FileExists ''out.mt'')"
    unfolding ld_prune_filter_def
    by (simp only: ex_occupied_reads ex_af_filter_ref ex_ld_prune_spec sum.case write_file_def)
       simp
  from a b ex_qc_changes ex_occupied_reads(5) c show ?thesis
    by (intro conjI)
qed

end
